theory Spec2Isabelle
  imports Main "HOL-Library.Sublist"
begin

section \<open>Data model of \<open>src/App.tsx\<close>\<close>

text \<open>
  The component \<open>App\<close> keeps six pieces of React state and one mutable reference
  (\<open>abortControllerRef\<close>). Its handlers are modelled as functions from the state to the
  new state; the two asynchronous handlers are suspended at every \<open>await\<close> and are
  modelled by a task value (the program point together with the captured locals) and a
  function that resumes the task.

  A browser \<open>File\<close> is an object: \<open>handleRemoveFile\<close> compares files with \<open>!==\<close>, which is
  identity of objects, while \<open>handleFilesAdded\<close> compares the properties \<open>name\<close> and
  \<open>size\<close>. The field \<open>obj\<close> is the identity of the object, so that \<open>a !== b\<close> is
  \<open>obj a \<noteq> obj b\<close>; two distinct objects may well carry the same name and size.
\<close>

record File =
  obj :: nat
  name :: string
  size_f :: nat

text \<open>
  \<open>UploadStatus\<close> is declared in \<open>./types\<close>; the component only ever stores
  \<open>{ type: null | 'error' | 'success', message: string }\<close>.
\<close>

datatype status_type = success | error

record UploadStatus =
  stype :: "status_type option"
  message :: string

text \<open>
  A parsed document is the sequence of its pages; the content of a page is opaque to the
  component. The blob kept in \<open>compiledPdfBlob\<close> is the serialised merged document and is
  represented by the page sequence it serialises.
\<close>

type_synonym PDFPage = string
type_synonym PDFDocument = "PDFPage list"
type_synonym ArrayBuffer = "nat list"

text \<open>
  Every \<open>new AbortController()\<close> allocates a fresh object whose signal is not aborted.
  \<open>controllers\<close> holds the \<open>aborted\<close> flag of every controller allocated so far, in order of
  allocation; a controller is named by its index, and \<open>abortControllerRef\<close> is the content
  of the React reference (\<open>None\<close> for \<open>null\<close>).
\<close>

record app =
  sessionName :: string
  files :: "File list"
  isProcessing :: bool
  uploadStatus :: UploadStatus
  isPreviewOpen :: bool
  compiledPdfBlob :: "PDFDocument option"
  abortControllerRef :: "nat option"
  controllers :: "bool list"

definition noStatus :: UploadStatus where
  "noStatus = \<lparr>stype = None, message = []\<rparr>"

text \<open>The state of the component when it is mounted (the arguments of \<open>useState\<close>, \<open>useRef\<close>).\<close>

definition initialApp :: app where
  "initialApp = \<lparr>sessionName = [], files = [], isProcessing = False, uploadStatus = noStatus,
     isPreviewOpen = False, compiledPdfBlob = None, abortControllerRef = None,
     controllers = []\<rparr>"

text \<open>\<open>signal.aborted\<close> of the controller \<open>c\<close>.\<close>

definition aborted :: "app \<Rightarrow> nat \<Rightarrow> bool" where
  "aborted s c = (c < length (controllers s) \<and> controllers s ! c)"

text \<open>\<open>abortControllerRef.current = new AbortController()\<close>; the result is the new controller.\<close>

definition newAbortController :: "app \<Rightarrow> app \<times> nat" where
  "newAbortController s =
     (s\<lparr>abortControllerRef := Some (length (controllers s)),
        controllers := controllers s @ [False]\<rparr>, length (controllers s))"

text \<open>\<open>abortControllerRef.current?.abort()\<close>.\<close>

definition abortCurrent :: "app \<Rightarrow> app" where
  "abortCurrent s =
     (case abortControllerRef s of
        None \<Rightarrow> s
      | Some c \<Rightarrow> s\<lparr>controllers := (controllers s)[c := True]\<rparr>)"

section \<open>The file set\<close>

text \<open>
  \<^verbatim>\<open>setFiles(prevFiles => {
    const uniqueNewFiles = newFiles.filter(newFile =>
      !prevFiles.some(existingFile =>
        existingFile.name === newFile.name && existingFile.size === newFile.size));
    return [...prevFiles, ...uniqueNewFiles]; })\<close>
\<close>

definition handleFilesAdded :: "File list \<Rightarrow> app \<Rightarrow> app" where
  "handleFilesAdded newFiles s =
     (let prevFiles = files s;
          uniqueNewFiles =
            filter (\<lambda>newFile.
                \<not> list_ex (\<lambda>existingFile.
                     name existingFile = name newFile \<and> size_f existingFile = size_f newFile)
                   prevFiles)
              newFiles
      in s\<lparr>files := prevFiles @ uniqueNewFiles\<rparr>)"

text \<open>\<^verbatim>\<open>setFiles(prevFiles => prevFiles.filter(file => file !== fileToRemove))\<close>\<close>

definition handleRemoveFile :: "File \<Rightarrow> app \<Rightarrow> app" where
  "handleRemoveFile fileToRemove s =
     s\<lparr>files := filter (\<lambda>file. obj file \<noteq> obj fileToRemove) (files s)\<rparr>"

text \<open>
  The removal that the specification describes, written after its words (``removes the
  first structurally-equal entry; no-op if absent''), for comparison with
  \<open>handleRemoveFile\<close>.
\<close>

fun spec_remove_first :: "File \<Rightarrow> File list \<Rightarrow> File list" where
  "spec_remove_first f [] = []"
| "spec_remove_first f (e # es) =
     (if name e = name f \<and> size_f e = size_f f then es else e # spec_remove_first f es)"

text \<open>The identity pair of a file, as \<open>handleFilesAdded\<close> compares it.\<close>

definition identityPair :: "File \<Rightarrow> string \<times> nat" where
  "identityPair f = (name f, size_f f)"

text \<open>Three files for the examples: \<open>fileA\<close> and \<open>fileB\<close> are distinct objects with one
  name and size.\<close>

definition fileA :: File where
  "fileA = \<lparr>obj = 1, name = ''a.pdf'', size_f = 10\<rparr>"

definition fileC :: File where
  "fileC = \<lparr>obj = 2, name = ''c.pdf'', size_f = 20\<rparr>"

definition fileB :: File where
  "fileB = \<lparr>obj = 3, name = ''a.pdf'', size_f = 10\<rparr>"

section \<open>Synchronous handlers\<close>

text \<open>\<^verbatim>\<open>onChange={(e) => setSessionName(e.target.value)}\<close>\<close>

definition setSessionName :: "string \<Rightarrow> app \<Rightarrow> app" where
  "setSessionName v s = s\<lparr>sessionName := v\<rparr>"

definition handleToastClose :: "app \<Rightarrow> app" where
  "handleToastClose s = s\<lparr>uploadStatus := noStatus\<rparr>"

definition handleClosePreview :: "app \<Rightarrow> app" where
  "handleClosePreview s = s\<lparr>isPreviewOpen := False, compiledPdfBlob := None\<rparr>"

text \<open>
  \<^verbatim>\<open>abortControllerRef.current?.abort();
  setSessionName(''); setFiles([]); setIsProcessing(false);
  handleClosePreview(); setUploadStatus({ type: null, message: '' });\<close>
\<close>

definition handleReset :: "app \<Rightarrow> app" where
  "handleReset s =
     (let s1 = abortCurrent s;
          s2 = s1\<lparr>sessionName := []\<rparr>;
          s3 = s2\<lparr>files := []\<rparr>;
          s4 = s3\<lparr>isProcessing := False\<rparr>;
          s5 = handleClosePreview s4
      in s5\<lparr>uploadStatus := noStatus\<rparr>)"

section \<open>Thrown values\<close>

text \<open>
  The values that reach the two \<open>catch\<close> blocks: a \<open>DOMException\<close> with its name and
  message, any other \<open>Error\<close> with its message, and a value that is not an \<open>Error\<close> (the
  \<open>ProgressEvent\<close> with which \<open>readFileAsArrayBuffer\<close> rejects, since \<open>reader.onerror =
  reject\<close>). A \<open>DOMException\<close> is an instance of \<open>Error\<close>.
\<close>

datatype thrown = DOMException string string | JsError string | NonError

fun instanceofError :: "thrown \<Rightarrow> bool" where
  "instanceofError (DOMException n m) = True"
| "instanceofError (JsError m) = True"
| "instanceofError NonError = False"

text \<open>\<^verbatim>\<open>error instanceof DOMException && error.name === 'AbortError'\<close>\<close>

fun isAbortError :: "thrown \<Rightarrow> bool" where
  "isAbortError (DOMException n m) = (n = ''AbortError'')"
| "isAbortError (JsError m) = False"
| "isAbortError NonError = False"

fun message_of :: "thrown \<Rightarrow> string" where
  "message_of (DOMException n m) = m"
| "message_of (JsError m) = m"
| "message_of NonError = []"

text \<open>The \<open>finally\<close> block of both asynchronous handlers:
  \<^verbatim>\<open>if (!signal.aborted) { setIsProcessing(false); }\<close>\<close>

definition finally_block :: "app \<Rightarrow> nat \<Rightarrow> app" where
  "finally_block s signal = (if \<not> aborted s signal then s\<lparr>isProcessing := False\<rparr> else s)"

section \<open>Compile and review\<close>

text \<open>
  What lies outside the component: the outcome of reading a file with a \<open>FileReader\<close>
  (\<open>None\<close> when the reader fires \<open>onerror\<close>) and the outcome of
  \<open>PDFDocument.load(buffer, { ignoreInvalidXRefTable: true })\<close>, which either throws an
  \<open>Error\<close> with a message (\<open>Inl\<close>) or yields the parsed document. Creating the empty
  document, copying the pages of a parsed document and saving the merged document are
  taken not to throw.
\<close>

record env =
  readFile :: "File \<Rightarrow> ArrayBuffer option"
  pdfLoad :: "ArrayBuffer \<Rightarrow> string + PDFDocument"

definition readFileAsArrayBuffer :: "env \<Rightarrow> File \<Rightarrow> thrown + ArrayBuffer" where
  "readFileAsArrayBuffer e file =
     (case readFile e file of None \<Rightarrow> Inl NonError | Some buffer \<Rightarrow> Inr buffer)"

definition PDFDocument_load :: "env \<Rightarrow> ArrayBuffer \<Rightarrow> thrown + PDFDocument" where
  "PDFDocument_load e buffer =
     (case pdfLoad e buffer of Inl m \<Rightarrow> Inl (JsError m) | Inr doc \<Rightarrow> Inr doc)"

definition getPageIndices :: "PDFDocument \<Rightarrow> nat list" where
  "getPageIndices doc = [0..<length doc]"

definition copyPages :: "PDFDocument \<Rightarrow> nat list \<Rightarrow> PDFPage list" where
  "copyPages doc indices = map (\<lambda>i. doc ! i) indices"

definition addPage :: "PDFDocument \<Rightarrow> PDFPage \<Rightarrow> PDFDocument" where
  "addPage doc page = doc @ [page]"

text \<open>
  \<open>mergedPdf.save()\<close> is called without options, and the option \<open>addDefaultPage\<close> of
  pdf-lib is on unless it is switched off: a document that has no page is given one blank
  page before it is serialised
  (\<^verbatim>\<open>if (addDefaultPage && this.getPageCount() === 0) this.addPage()\<close>). The blank page is
  the page without content. The result stands for the bytes that are wrapped in the blob.
\<close>

definition blankPage :: PDFPage where
  "blankPage = []"

definition save :: "PDFDocument \<Rightarrow> PDFDocument" where
  "save doc = (if length doc = 0 then addPage doc blankPage else doc)"

text \<open>
  A compile that is suspended at an \<open>await\<close>: the captured \<open>signal\<close>, the files the
  \<open>for\<close> loop has still to visit (the loop iterates over the \<open>files\<close> of the render in
  which the handler was called) and the pages of \<open>mergedPdf\<close>.
  \<^item> \<open>AwaitCreate\<close>: at \<open>await PDFDocument.create()\<close>;
  \<^item> \<open>AwaitRead\<close>: at \<open>await readFileAsArrayBuffer(file)\<close>;
  \<^item> \<open>AwaitLoad\<close>: at \<open>await PDFDocument.load(fileBuffer, ...)\<close>;
  \<^item> \<open>AwaitCopy\<close>: at \<open>await mergedPdf.copyPages(...)\<close>, holding the copied pages;
  \<^item> \<open>AwaitSave\<close>: at \<open>await mergedPdf.save()\<close>.
\<close>

datatype compile_task =
    AwaitCreate nat "File list"
  | AwaitRead nat File "File list" PDFDocument
  | AwaitLoad nat ArrayBuffer "File list" PDFDocument
  | AwaitCopy nat "PDFPage list" "File list" PDFDocument
  | AwaitSave nat PDFDocument

fun signal_of :: "compile_task \<Rightarrow> nat" where
  "signal_of (AwaitCreate signal fs) = signal"
| "signal_of (AwaitRead signal f fs merged) = signal"
| "signal_of (AwaitLoad signal b fs merged) = signal"
| "signal_of (AwaitCopy signal ps fs merged) = signal"
| "signal_of (AwaitSave signal merged) = signal"

text \<open>The \<open>catch\<close> block of \<open>handleCompileAndReview\<close>, followed by its \<open>finally\<close> block.\<close>

definition compile_catch :: "app \<Rightarrow> nat \<Rightarrow> thrown \<Rightarrow> app" where
  "compile_catch s signal err =
     (let s1 =
        (if isAbortError err then s
         else
           let errorMessage =
                 (if instanceofError err then ''Failed to process files: '' @ message_of err
                  else ''An unknown error occurred during file processing.'')
           in s\<lparr>uploadStatus := \<lparr>stype = Some error, message = errorMessage\<rparr>\<rparr>)
      in finally_block s1 signal)"

text \<open>
  The head of the \<open>for\<close> loop. With a file left, \<open>signal.aborted\<close> is tested and either
  the \<open>DOMException\<close> is thrown or the file is handed to the reader. With no file left the
  loop is over and \<open>mergedPdf.save()\<close> is called; \<open>signal.aborted\<close> is not tested there.
\<close>

fun loop_head :: "app \<Rightarrow> nat \<Rightarrow> File list \<Rightarrow> PDFDocument \<Rightarrow> app \<times> compile_task option" where
  "loop_head s signal [] merged = (s, Some (AwaitSave signal merged))"
| "loop_head s signal (file # rest) merged =
     (if aborted s signal
      then (compile_catch s signal (DOMException ''AbortError'' ''Aborted by user''), None)
      else (s, Some (AwaitRead signal file rest merged)))"

text \<open>
  The call of the handler, up to its first \<open>await\<close>:
  \<^verbatim>\<open>if (!sessionName || files.length === 0 || isProcessing) { return; }
  abortControllerRef.current = new AbortController();
  const signal = abortControllerRef.current.signal;
  setIsProcessing(true);
  setUploadStatus({ type: null, message: '' });\<close>
\<close>

definition handleCompileAndReview :: "app \<Rightarrow> app \<times> compile_task option" where
  "handleCompileAndReview s =
     (if sessionName s = [] \<or> length (files s) = 0 \<or> isProcessing s then (s, None)
      else
        let (s1, signal) = newAbortController s;
            s2 = s1\<lparr>isProcessing := True\<rparr>;
            s3 = s2\<lparr>uploadStatus := noStatus\<rparr>
        in (s3, Some (AwaitCreate signal (files s))))"

text \<open>
  The continuation of a suspended compile, run when the awaited promise settles in the
  state \<open>s\<close> of that moment. It returns the new state and the next suspension, or \<open>None\<close>
  when the handler has returned.
\<close>

fun compile_resume :: "env \<Rightarrow> app \<Rightarrow> compile_task \<Rightarrow> app \<times> compile_task option" where
  "compile_resume e s (AwaitCreate signal fs) = loop_head s signal fs []"
| "compile_resume e s (AwaitRead signal file rest merged) =
     (case readFileAsArrayBuffer e file of
        Inl err \<Rightarrow> (compile_catch s signal err, None)
      | Inr fileBuffer \<Rightarrow> (s, Some (AwaitLoad signal fileBuffer rest merged)))"
| "compile_resume e s (AwaitLoad signal fileBuffer rest merged) =
     (case PDFDocument_load e fileBuffer of
        Inl err \<Rightarrow> (compile_catch s signal err, None)
      | Inr pdfToMerge \<Rightarrow>
          (s, Some (AwaitCopy signal (copyPages pdfToMerge (getPageIndices pdfToMerge))
                      rest merged)))"
| "compile_resume e s (AwaitCopy signal copiedPages rest merged) =
     loop_head s signal rest (foldl addPage merged copiedPages)"
| "compile_resume e s (AwaitSave signal merged) =
     (let blob = save merged;
          s1 = s\<lparr>compiledPdfBlob := Some blob\<rparr>;
          s2 = s1\<lparr>isPreviewOpen := True\<rparr>
      in (finally_block s2 signal, None))"

text \<open>The number of suspensions a task has still before it, at most.\<close>

fun task_size :: "compile_task \<Rightarrow> nat" where
  "task_size (AwaitCreate signal fs) = 4 * length fs + 2"
| "task_size (AwaitRead signal f rest merged) = 4 * length rest + 4"
| "task_size (AwaitLoad signal b rest merged) = 4 * length rest + 3"
| "task_size (AwaitCopy signal ps rest merged) = 4 * length rest + 2"
| "task_size (AwaitSave signal merged) = 1"

lemma loop_head_task_size:
  "loop_head s signal fs merged = (s', Some t') \<Longrightarrow> task_size t' \<le> 4 * length fs + 1"
  by (cases fs) (auto split: if_splits)

lemma compile_resume_task_size:
  "compile_resume e s t = (s', Some t') \<Longrightarrow> task_size t' < task_size t"
  by (cases t) (auto split: sum.splits dest!: loop_head_task_size)

text \<open>
  A compile that runs to its end with nothing else happening in between: every awaited
  promise settles and the continuation runs, until the handler returns.
\<close>

function compile_run :: "env \<Rightarrow> app \<Rightarrow> compile_task \<Rightarrow> app" where
  "compile_run e s t =
     (case compile_resume e s t of
        (s', None) \<Rightarrow> s'
      | (s', Some t') \<Rightarrow> compile_run e s' t')"
  by pat_completeness auto
termination
  by (relation "measure (\<lambda>(e, s, t). task_size t)") (auto dest: compile_resume_task_size [OF sym])

text \<open>The handler called and run to its end.\<close>

definition compileAndReview :: "env \<Rightarrow> app \<Rightarrow> app" where
  "compileAndReview e s =
     (case handleCompileAndReview s of
        (s1, None) \<Rightarrow> s1
      | (s1, Some t) \<Rightarrow> compile_run e s1 t)"

section \<open>Final submit\<close>

text \<open>
  The response of the endpoint, as far as the handler reads it. \<open>response.ok\<close> is true
  for the statuses 200 to 299.
\<close>

record Response =
  status :: nat
  statusText :: string

definition ok :: "Response \<Rightarrow> bool" where
  "ok response = (200 \<le> status response \<and> status response \<le> 299)"

text \<open>A number in a template literal is written in decimal.\<close>

definition digit :: "nat \<Rightarrow> char" where
  "digit d = char_of (d + 48)"

fun string_of_nat :: "nat \<Rightarrow> string" where
  "string_of_nat n =
     (if 10 \<le> n then string_of_nat (n div 10) @ [digit (n mod 10)] else [digit n])"

text \<open>
  The request is sent with \<open>signal: signal\<close>, and the body of the response is read from
  the same request: a promise of either that is still pending when the signal is aborted
  rejects with the \<open>AbortError\<close> of the signal, whatever the network would have
  delivered. \<open>abortable\<close> turns the outcome the network offers into the outcome the
  continuation receives.
\<close>

definition abortable :: "bool \<Rightarrow> thrown + 'a \<Rightarrow> thrown + 'a" where
  "abortable is_aborted outcome =
     (if is_aborted then Inl (DOMException ''AbortError'' ''signal is aborted without reason'')
      else outcome)"

text \<open>
  A submit that is suspended at \<open>await fetch(...)\<close> or at \<open>await response.text()\<close>, with
  the captured \<open>signal\<close>. The body of the request is built from \<open>sessionName\<close> and
  \<open>compiledPdfBlob\<close> before the first suspension and has no effect on the state.
\<close>

datatype submit_task = AwaitFetch nat | AwaitText nat Response

text \<open>The \<open>catch\<close> block of \<open>handleFinalSubmit\<close>, followed by its \<open>finally\<close> block.\<close>

definition submit_catch :: "app \<Rightarrow> nat \<Rightarrow> thrown \<Rightarrow> app" where
  "submit_catch s signal err =
     (let s1 =
        (if isAbortError err
         then s\<lparr>uploadStatus := \<lparr>stype = Some error, message = ''Submission cancelled.''\<rparr>\<rparr>
         else
           let errorMessage =
                 (if instanceofError err then message_of err else ''An unknown error occurred.'')
           in s\<lparr>uploadStatus := \<lparr>stype = Some error, message = errorMessage\<rparr>\<rparr>)
      in finally_block s1 signal)"

text \<open>
  \<^verbatim>\<open>if (!compiledPdfBlob || !sessionName || isProcessing) return;
  abortControllerRef.current = new AbortController();
  const signal = abortControllerRef.current.signal;
  setIsProcessing(true);\<close>
\<close>

definition handleFinalSubmit :: "app \<Rightarrow> app \<times> submit_task option" where
  "handleFinalSubmit s =
     (if compiledPdfBlob s = None \<or> sessionName s = [] \<or> isProcessing s then (s, None)
      else
        let (s1, signal) = newAbortController s;
            s2 = s1\<lparr>isProcessing := True\<rparr>
        in (s2, Some (AwaitFetch signal)))"

text \<open>
  The continuation after \<open>await fetch(...)\<close>, given what the network offers:
  \<^verbatim>\<open>if (!response.ok) { const errorText = await response.text(); throw ... }
  setUploadStatus({ type: 'success', message: 'Upload successful! Your merged PDF was sent.' });
  setSessionName(''); setFiles([]); handleClosePreview();\<close>
\<close>

definition submit_resume_fetch ::
  "app \<Rightarrow> nat \<Rightarrow> thrown + Response \<Rightarrow> app \<times> submit_task option" where
  "submit_resume_fetch s signal outcome =
     (case abortable (aborted s signal) outcome of
        Inl err \<Rightarrow> (submit_catch s signal err, None)
      | Inr response \<Rightarrow>
          if \<not> ok response then (s, Some (AwaitText signal response))
          else
            let s1 = s\<lparr>uploadStatus :=
                        \<lparr>stype = Some success,
                         message = ''Upload successful! Your merged PDF was sent.''\<rparr>\<rparr>;
                s2 = s1\<lparr>sessionName := []\<rparr>;
                s3 = s2\<lparr>files := []\<rparr>;
                s4 = handleClosePreview s3
            in (finally_block s4 signal, None))"

text \<open>
  The continuation after \<open>await response.text()\<close>:
  \<^verbatim>\<open>throw new Error(`Upload failed: ${response.status} ${response.statusText}. ${errorText}`);\<close>
\<close>

definition submit_resume_text :: "app \<Rightarrow> nat \<Rightarrow> Response \<Rightarrow> thrown + string \<Rightarrow> app" where
  "submit_resume_text s signal response outcome =
     (case abortable (aborted s signal) outcome of
        Inl err \<Rightarrow> submit_catch s signal err
      | Inr errorText \<Rightarrow>
          submit_catch s signal
            (JsError (''Upload failed: '' @ string_of_nat (status response) @ '' ''
                        @ statusText response @ ''. '' @ errorText)))"

text \<open>
  What the network delivers to one submit: the outcome of the request and, for a response
  that is not ok, the outcome of reading its body.
\<close>

record network =
  fetchOutcome :: "thrown + Response"
  textOutcome :: "thrown + string"

text \<open>The handler called and run to its end with nothing else happening in between.\<close>

definition finalSubmit :: "network \<Rightarrow> app \<Rightarrow> app" where
  "finalSubmit net s =
     (case handleFinalSubmit s of
        (s1, None) \<Rightarrow> s1
      | (s1, Some (AwaitText signal response)) \<Rightarrow> s1
      | (s1, Some (AwaitFetch signal)) \<Rightarrow>
          (case submit_resume_fetch s1 signal (fetchOutcome net) of
             (s2, Some (AwaitText signal' response)) \<Rightarrow>
               submit_resume_text s2 signal' response (textOutcome net)
           | (s2, _) \<Rightarrow> s2))"

section \<open>Notions used in the statements\<close>

text \<open>
  What one iteration of the loop obtains from a file when it is left to run: the thrown
  value when the read or the parse fails, and the parsed document otherwise.
\<close>

definition filePages :: "env \<Rightarrow> File \<Rightarrow> thrown + PDFDocument" where
  "filePages e file =
     (case readFileAsArrayBuffer e file of
        Inl err \<Rightarrow> Inl err
      | Inr fileBuffer \<Rightarrow> PDFDocument_load e fileBuffer)"

text \<open>
  A suspended compile that will come to the head of the loop with a file still to visit,
  which is where \<open>signal.aborted\<close> is tested: the iteration under way, if any, does not
  throw and is not the last one.
\<close>

fun reaches_abort_test :: "env \<Rightarrow> compile_task \<Rightarrow> bool" where
  "reaches_abort_test e (AwaitCreate signal fs) = (fs \<noteq> [])"
| "reaches_abort_test e (AwaitRead signal file rest merged) =
     (rest \<noteq> [] \<and> \<not> isl (filePages e file))"
| "reaches_abort_test e (AwaitLoad signal fileBuffer rest merged) =
     (rest \<noteq> [] \<and> \<not> isl (PDFDocument_load e fileBuffer))"
| "reaches_abort_test e (AwaitCopy signal copiedPages rest merged) = (rest \<noteq> [])"
| "reaches_abort_test e (AwaitSave signal merged) = False"

text \<open>The loop entered at its head and left to run to the end of the handler.\<close>

definition run_loop :: "env \<Rightarrow> app \<Rightarrow> nat \<Rightarrow> File list \<Rightarrow> PDFDocument \<Rightarrow> app" where
  "run_loop e s signal fs merged =
     (case loop_head s signal fs merged of
        (s', None) \<Rightarrow> s'
      | (s', Some t) \<Rightarrow> compile_run e s' t)"

text \<open>The notice that \<open>handleFinalSubmit\<close> shows for an aborted request.\<close>

definition cancelledStatus :: UploadStatus where
  "cancelledStatus = \<lparr>stype = Some error, message = ''Submission cancelled.''\<rparr>"

section \<open>States and environments for the examples\<close>

text \<open>A session with a name and three files, ready to be compiled.\<close>

definition readyApp :: app where
  "readyApp = initialApp\<lparr>sessionName := ''Q3 Sales Review'', files := [fileA, fileC, fileB]\<rparr>"

text \<open>The same session after a compile: the preview is open on the merged document.\<close>

definition previewingApp :: app where
  "previewingApp = readyApp\<lparr>isPreviewOpen := True,
     compiledPdfBlob := Some [''doc1.p1'', ''doc1.p2''],
     abortControllerRef := Some 0, controllers := [False]\<rparr>"

text \<open>
  An environment in which every file is read (a file of object \<open>n\<close> has the buffer
  \<open>[n]\<close>); the buffers of \<open>fileA\<close>, \<open>fileC\<close> and \<open>fileB\<close> parse to documents of two, three
  and one pages, and no other buffer parses.
\<close>

definition goodEnv :: env where
  "goodEnv = \<lparr>readFile = (\<lambda>f. Some [obj f]),
     pdfLoad = (\<lambda>b.
       if b = [1] then Inr [''doc1.p1'', ''doc1.p2'']
       else if b = [2] then Inr [''doc2.p1'', ''doc2.p2'', ''doc2.p3'']
       else if b = [3] then Inr [''doc3.p1'']
       else Inl ''No PDF header found'')\<rparr>"

text \<open>The same environment, except that the buffer of \<open>fileC\<close> does not parse.\<close>

definition badEnv :: env where
  "badEnv = \<lparr>readFile = (\<lambda>f. Some [obj f]),
     pdfLoad = (\<lambda>b.
       if b = [1] then Inr [''doc1.p1'', ''doc1.p2'']
       else if b = [3] then Inr [''doc3.p1'']
       else Inl ''No PDF header found'')\<rparr>"

text \<open>The environment \<open>goodEnv\<close>, except that the reader fails on \<open>fileC\<close>.\<close>

definition unreadableEnv :: env where
  "unreadableEnv = \<lparr>readFile = (\<lambda>f. if obj f = 2 then None else Some [obj f]),
     pdfLoad = (\<lambda>b.
       if b = [1] then Inr [''doc1.p1'', ''doc1.p2'']
       else if b = [2] then Inr [''doc2.p1'', ''doc2.p2'', ''doc2.p3'']
       else if b = [3] then Inr [''doc3.p1'']
       else Inl ''No PDF header found'')\<rparr>"

text \<open>An environment in which every file is read and parses to a document without pages.\<close>

definition zeroPageEnv :: env where
  "zeroPageEnv = \<lparr>readFile = (\<lambda>f. Some [obj f]), pdfLoad = (\<lambda>b. Inr [])\<rparr>"

text \<open>The session of \<open>readyApp\<close> just after the compile handler was called.\<close>

definition compilingApp :: app where
  "compilingApp = fst (handleCompileAndReview readyApp)"

text \<open>The session of \<open>previewingApp\<close> just after the submit handler was called.\<close>

definition submittingApp :: app where
  "submittingApp = fst (handleFinalSubmit previewingApp)"

section \<open>Properties of the file set\<close>

lemma list_ex_identityPair:
  "list_ex (\<lambda>e. name e = name c \<and> size_f e = size_f c) xs
     \<longleftrightarrow> identityPair c \<in> identityPair ` set xs"
  by (induction xs) (auto simp: identityPair_def)

lemma files_handleFilesAdded:
  "files (handleFilesAdded newFiles s) =
     files s @ filter (\<lambda>c. identityPair c \<notin> identityPair ` set (files s)) newFiles"
  by (simp add: handleFilesAdded_def Let_def list_ex_identityPair)

lemma handleFilesAdded_frame:
  "handleFilesAdded newFiles s = s\<lparr>files := files (handleFilesAdded newFiles s)\<rparr>"
  by (simp add: handleFilesAdded_def Let_def)

lemma files_handleRemoveFile:
  "files (handleRemoveFile f s) = filter (\<lambda>e. obj e \<noteq> obj f) (files s)"
  by (simp add: handleRemoveFile_def)

lemma length_filter_split:
  "length (filter (\<lambda>e. \<not> P e) xs) + length (filter P xs) = length xs"
  by (induction xs) auto

text \<open>
  C9. Adding a batch keeps the current set as a prefix (no existing entry moves), and
  appends, in arrival order, exactly the candidates whose (name, size) pair does not
  occur in the current set. A candidate whose pair occurs in the set is not appended: a
  batch of such candidates leaves the set as it was, so the length does not grow. Nothing
  but the file set changes.
\<close>

theorem C9_add_appends_only_new_pairs:
  "take (length (files s)) (files (handleFilesAdded newFiles s)) = files s
   \<and> drop (length (files s)) (files (handleFilesAdded newFiles s))
       = filter (\<lambda>c. identityPair c \<notin> identityPair ` set (files s)) newFiles
   \<and> subseq (drop (length (files s)) (files (handleFilesAdded newFiles s))) newFiles
   \<and> (\<forall>i < length (files s). files (handleFilesAdded newFiles s) ! i = files s ! i)
   \<and> (identityPair c \<in> identityPair ` set (files s)
        \<longrightarrow> files (handleFilesAdded [c] s) = files s)
   \<and> (identityPair ` set newFiles \<subseteq> identityPair ` set (files s)
        \<longrightarrow> handleFilesAdded newFiles s = s)
   \<and> handleFilesAdded newFiles s = s\<lparr>files := files (handleFilesAdded newFiles s)\<rparr>"
proof -
  let ?new = "filter (\<lambda>c. identityPair c \<notin> identityPair ` set (files s)) newFiles"
  have eq: "files (handleFilesAdded newFiles s) = files s @ ?new"
    by (rule files_handleFilesAdded)
  have one: "identityPair c \<in> identityPair ` set (files s)
               \<longrightarrow> files (handleFilesAdded [c] s) = files s"
    by (simp add: files_handleFilesAdded)
  have all: "identityPair ` set newFiles \<subseteq> identityPair ` set (files s)
               \<longrightarrow> handleFilesAdded newFiles s = s"
  proof
    assume sub: "identityPair ` set newFiles \<subseteq> identityPair ` set (files s)"
    then have "?new = []"
      by (auto simp: filter_empty_conv)
    then have "files (handleFilesAdded newFiles s) = files s"
      using eq by simp
    then show "handleFilesAdded newFiles s = s"
      using handleFilesAdded_frame [of newFiles s] by simp
  qed
  show ?thesis
    using one all handleFilesAdded_frame [of newFiles s]
    by (simp add: eq nth_append)
qed

theorem C9_add_appends_only_new_pairs_witness:
  "identityPair fileB \<in> identityPair ` set (files (initialApp\<lparr>files := [fileA, fileC]\<rparr>))
   \<and> files (handleFilesAdded [fileB] (initialApp\<lparr>files := [fileA, fileC]\<rparr>)) = [fileA, fileC]
   \<and> files (handleFilesAdded [fileB] (initialApp\<lparr>files := [fileA, fileC]\<rparr>)) ! 0 = fileA"
proof -
  let ?s = "initialApp\<lparr>files := [fileA, fileC]\<rparr>"
  have h: "identityPair fileB \<in> identityPair ` set (files ?s)"
    by (simp add: identityPair_def fileA_def fileB_def)
  have "files (handleFilesAdded [fileB] ?s) = files ?s"
    using C9_add_appends_only_new_pairs [of ?s "[fileB]" fileB] h by blast
  then show ?thesis
    using h by simp
qed

text \<open>
  C10. The pairs of the candidates are compared with the set as it was before the call
  and never with one another: two candidates of one batch that carry the same
  (name, size) pair, a pair that is not in the set, are both appended, and the set then
  holds two entries with that pair.
\<close>

theorem C10_add_keeps_duplicates_within_batch:
  assumes "identityPair a = identityPair b"
    and "identityPair a \<notin> identityPair ` set (files s)"
  shows "files (handleFilesAdded [a, b] s) = files s @ [a, b]
         \<and> length (filter (\<lambda>e. identityPair e = identityPair a)
                      (files (handleFilesAdded [a, b] s))) = 2"
proof -
  have eq: "files (handleFilesAdded [a, b] s) = files s @ [a, b]"
    using assms by (simp add: files_handleFilesAdded)
  have "filter (\<lambda>e. identityPair e = identityPair a) (files s) = []"
    using assms(2) by (metis (mono_tags, lifting) filter_False imageI)
  then show ?thesis
    using assms(1) by (simp add: eq)
qed

theorem C10_add_keeps_duplicates_within_batch_witness:
  "identityPair fileA = identityPair fileB
   \<and> obj fileA \<noteq> obj fileB
   \<and> files (handleFilesAdded [fileA, fileB] initialApp) = [fileA, fileB]"
proof -
  have p: "identityPair fileA = identityPair fileB"
    by (simp add: identityPair_def fileA_def fileB_def)
  have n: "identityPair fileA \<notin> identityPair ` set (files initialApp)"
    by (simp add: initialApp_def)
  show ?thesis
    using p C10_add_keeps_duplicates_within_batch [OF p n]
    by (simp add: initialApp_def fileA_def fileB_def)
qed

text \<open>
  C8, as the code has it. Removing a file deletes every entry that is the same object as
  the argument and nothing else: the result is a subsequence of the set (the order of
  what remains is kept), it holds exactly the entries that are other objects, and the
  length drops by the number of entries that are this object. When no entry is this
  object the state is unchanged, whatever the names and sizes; when the object is in the
  set once, that entry goes and the length is smaller by exactly one. Nothing but the
  file set changes.
\<close>

theorem C8_remove_deletes_same_object:
  "subseq (files (handleRemoveFile f s)) (files s)
   \<and> set (files (handleRemoveFile f s)) = {e \<in> set (files s). obj e \<noteq> obj f}
   \<and> length (files (handleRemoveFile f s))
         + length (filter (\<lambda>e. obj e = obj f) (files s)) = length (files s)
   \<and> ((\<forall>e \<in> set (files s). obj e \<noteq> obj f) \<longrightarrow> handleRemoveFile f s = s)
   \<and> (files s = xs @ f # ys \<and> (\<forall>e \<in> set xs \<union> set ys. obj e \<noteq> obj f) \<longrightarrow>
        files (handleRemoveFile f s) = xs @ ys
        \<and> length (files (handleRemoveFile f s)) = length (files s) - 1)
   \<and> handleRemoveFile f s = s\<lparr>files := files (handleRemoveFile f s)\<rparr>"
proof -
  have len: "length (files (handleRemoveFile f s))
         + length (filter (\<lambda>e. obj e = obj f) (files s)) = length (files s)"
    using length_filter_split [of "\<lambda>e. obj e = obj f" "files s"]
    by (simp add: files_handleRemoveFile)
  have noop: "(\<forall>e \<in> set (files s). obj e \<noteq> obj f) \<longrightarrow> handleRemoveFile f s = s"
    by (simp add: handleRemoveFile_def)
  have once: "files s = xs @ f # ys \<and> (\<forall>e \<in> set xs \<union> set ys. obj e \<noteq> obj f) \<longrightarrow>
        files (handleRemoveFile f s) = xs @ ys
        \<and> length (files (handleRemoveFile f s)) = length (files s) - 1"
    by (auto simp: files_handleRemoveFile)
  show ?thesis
    using len noop once by (auto simp: files_handleRemoveFile handleRemoveFile_def)
qed

theorem C8_remove_deletes_same_object_witness:
  "files (handleRemoveFile fileB (initialApp\<lparr>files := [fileA, fileC, fileB]\<rparr>)) = [fileA, fileC]
   \<and> handleRemoveFile fileB (initialApp\<lparr>files := [fileA]\<rparr>) = initialApp\<lparr>files := [fileA]\<rparr>"
proof -
  let ?s = "initialApp\<lparr>files := [fileA, fileC, fileB]\<rparr>"
  let ?t = "initialApp\<lparr>files := [fileA]\<rparr>"
  have 1: "files ?s = [fileA, fileC] @ fileB # []
           \<and> (\<forall>e \<in> set [fileA, fileC] \<union> set []. obj e \<noteq> obj fileB)"
    by (simp add: fileA_def fileB_def fileC_def)
  have 2: "\<forall>e \<in> set (files ?t). obj e \<noteq> obj fileB"
    by (simp add: fileA_def fileB_def)
  have "files (handleRemoveFile fileB ?s) = [fileA, fileC] @ []"
    using C8_remove_deletes_same_object [of fileB ?s "[fileA, fileC]" "[]"] 1 by blast
  moreover have "handleRemoveFile fileB ?t = ?t"
    using C8_remove_deletes_same_object [of fileB ?t] 2 by blast
  ultimately show ?thesis by simp
qed

text \<open>
  C8, as it is stated, fails. \<open>fileA\<close> and \<open>fileB\<close> are two objects with one name and
  size, added in one batch with \<open>fileC\<close> between them. Removing \<open>fileB\<close> deletes the
  third entry, whereas the first entry that is structurally equal to the argument is
  \<open>fileA\<close>: the set that results differs from the one the statement describes. And
  from the set that holds \<open>fileA\<close> alone, removing \<open>fileB\<close> deletes nothing, although
  a structurally equal entry is present.
\<close>

theorem C8_remove_first_structural_counterexample:
  "name fileA = name fileB \<and> size_f fileA = size_f fileB
   \<and> files (handleRemoveFile fileB (initialApp\<lparr>files := [fileA, fileC, fileB]\<rparr>))
       = [fileA, fileC]
   \<and> spec_remove_first fileB [fileA, fileC, fileB] = [fileC, fileB]
   \<and> files (handleRemoveFile fileB (initialApp\<lparr>files := [fileA, fileC, fileB]\<rparr>))
       \<noteq> spec_remove_first fileB (files (initialApp\<lparr>files := [fileA, fileC, fileB]\<rparr>))
   \<and> length (files (handleRemoveFile fileB (initialApp\<lparr>files := [fileA]\<rparr>)))
       \<noteq> length (files (initialApp\<lparr>files := [fileA]\<rparr>)) - 1"
  by (simp add: handleRemoveFile_def fileA_def fileB_def fileC_def)

section \<open>Facts about the compile loop\<close>

declare compile_run.simps [simp del]

lemma foldl_addPage: "foldl addPage merged ps = merged @ ps"
  by (induction ps arbitrary: merged) (simp_all add: addPage_def)

lemma copyPages_all: "copyPages doc (getPageIndices doc) = doc"
  by (simp add: copyPages_def getPageIndices_def map_nth)

lemma filePages_not_abort: "filePages e f = Inl err \<Longrightarrow> \<not> isAbortError err"
  by (auto simp: filePages_def readFileAsArrayBuffer_def PDFDocument_load_def
           split: option.splits sum.splits)

lemma finally_block_aborted: "aborted s signal \<Longrightarrow> finally_block s signal = s"
  by (simp add: finally_block_def)

lemma aborted_update [simp]:
  "aborted (s\<lparr>uploadStatus := u\<rparr>) c = aborted s c"
  "aborted (s\<lparr>isProcessing := b\<rparr>) c = aborted s c"
  "aborted (s\<lparr>sessionName := n\<rparr>) c = aborted s c"
  "aborted (s\<lparr>files := fs\<rparr>) c = aborted s c"
  "aborted (s\<lparr>isPreviewOpen := b\<rparr>) c = aborted s c"
  "aborted (s\<lparr>compiledPdfBlob := bl\<rparr>) c = aborted s c"
  "aborted (s\<lparr>abortControllerRef := r\<rparr>) c = aborted s c"
  by (simp_all add: aborted_def)

lemma compile_run_AwaitSave:
  "compile_run e s (AwaitSave signal merged) =
     finally_block (s\<lparr>compiledPdfBlob := Some (save merged), isPreviewOpen := True\<rparr>) signal"
  by (subst compile_run.simps) simp

lemma compile_run_AwaitCreate:
  "compile_run e s (AwaitCreate signal fs) = run_loop e s signal fs []"
  by (subst compile_run.simps) (simp add: run_loop_def)

lemma compile_run_AwaitCopy:
  "compile_run e s (AwaitCopy signal copiedPages rest merged) =
     run_loop e s signal rest (merged @ copiedPages)"
  by (subst compile_run.simps) (simp add: run_loop_def foldl_addPage)

lemma compile_run_AwaitLoad:
  "compile_run e s (AwaitLoad signal fileBuffer rest merged) =
     (case PDFDocument_load e fileBuffer of
        Inl err \<Rightarrow> compile_catch s signal err
      | Inr doc \<Rightarrow> run_loop e s signal rest (merged @ doc))"
  by (subst compile_run.simps)
     (simp add: copyPages_all compile_run_AwaitCopy split: sum.splits)

lemma compile_run_AwaitRead:
  "compile_run e s (AwaitRead signal file rest merged) =
     (case filePages e file of
        Inl err \<Rightarrow> compile_catch s signal err
      | Inr doc \<Rightarrow> run_loop e s signal rest (merged @ doc))"
  by (subst compile_run.simps)
     (simp add: filePages_def compile_run_AwaitLoad split: sum.splits)

lemma run_loop_Nil:
  "run_loop e s signal [] merged =
     finally_block (s\<lparr>compiledPdfBlob := Some (save merged), isPreviewOpen := True\<rparr>) signal"
  by (simp add: run_loop_def compile_run_AwaitSave)

lemma run_loop_aborted:
  "aborted s signal \<Longrightarrow> run_loop e s signal (f # fs) merged = s"
  by (simp add: run_loop_def compile_catch_def finally_block_def)

lemma run_loop_Cons:
  "\<not> aborted s signal \<Longrightarrow>
   run_loop e s signal (f # fs) merged =
     (case filePages e f of
        Inl err \<Rightarrow> compile_catch s signal err
      | Inr doc \<Rightarrow> run_loop e s signal fs (merged @ doc))"
  by (simp add: run_loop_def compile_run_AwaitRead)

lemma run_loop_all_parsed:
  assumes "\<not> aborted s signal"
    and "map (filePages e) fs = map Inr docs"
  shows "run_loop e s signal fs merged =
     s\<lparr>compiledPdfBlob := Some (save (merged @ concat docs)), isPreviewOpen := True,
       isProcessing := False\<rparr>"
  using assms(2)
proof (induction fs arbitrary: merged docs)
  case Nil
  then show ?case
    using assms(1) by (simp add: run_loop_Nil finally_block_def)
next
  case (Cons f fs)
  then obtain d ds where docs: "docs = d # ds" and f: "filePages e f = Inr d"
    and rest: "map (filePages e) fs = map Inr ds"
    by (cases docs) auto
  show ?case
    using Cons.IH [OF rest] assms(1) f by (simp add: run_loop_Cons docs)
qed

lemma run_loop_failure:
  assumes "\<not> aborted s signal"
    and "find (\<lambda>f. isl (filePages e f)) fs = Some f"
    and "filePages e f = Inl err"
  shows "run_loop e s signal fs merged =
     s\<lparr>uploadStatus := \<lparr>stype = Some error,
          message = (if instanceofError err then ''Failed to process files: '' @ message_of err
                     else ''An unknown error occurred during file processing.'')\<rparr>,
       isProcessing := False\<rparr>"
  using assms(2)
proof (induction fs arbitrary: merged)
  case Nil
  then show ?case by simp
next
  case (Cons g fs)
  show ?case
  proof (cases "filePages e g")
    case (Inl err')
    then have "g = f" using Cons.prems by simp
    then show ?thesis
      using assms(1,3) filePages_not_abort [OF assms(3)]
      by (simp add: run_loop_Cons compile_catch_def finally_block_def)
  next
    case (Inr doc)
    then have "find (\<lambda>f. isl (filePages e f)) fs = Some f"
      using Cons.prems by simp
    then show ?thesis
      using Cons.IH assms(1) Inr by (simp add: run_loop_Cons)
  qed
qed

lemma not_isl_Inr: "\<not> isl x \<longleftrightarrow> (\<exists>d. x = Inr d)"
  by (cases x) auto

lemma compile_run_observes_abort:
  assumes "aborted s (signal_of t)" and "reaches_abort_test e t"
  shows "compile_run e s t = s"
proof (cases t)
  case (AwaitCreate signal fs)
  then show ?thesis
    using assms by (cases fs) (simp_all add: compile_run_AwaitCreate run_loop_aborted)
next
  case (AwaitRead signal f rest merged)
  then show ?thesis
    using assms
    by (cases rest) (auto simp: compile_run_AwaitRead run_loop_aborted not_isl_Inr)
next
  case (AwaitLoad signal buf rest merged)
  then show ?thesis
    using assms
    by (cases rest) (auto simp: compile_run_AwaitLoad run_loop_aborted not_isl_Inr)
next
  case (AwaitCopy signal ps rest merged)
  then show ?thesis
    using assms by (cases rest) (simp_all add: compile_run_AwaitCopy run_loop_aborted)
next
  case (AwaitSave signal merged)
  then show ?thesis using assms(2) by simp
qed


lemma frame_finally_block [simp]:
  "files (finally_block s signal) = files s"
  "sessionName (finally_block s signal) = sessionName s"
  by (simp_all add: finally_block_def)

lemma frame_compile_catch [simp]:
  "files (compile_catch s signal err) = files s"
  "sessionName (compile_catch s signal err) = sessionName s"
  by (simp_all add: compile_catch_def Let_def)

lemma frame_loop_head:
  "files (fst (loop_head s signal fs merged)) = files s"
  "sessionName (fst (loop_head s signal fs merged)) = sessionName s"
  by (cases fs; simp)+

lemma compile_resume_frame:
  "files (fst (compile_resume e s t)) = files s
   \<and> sessionName (fst (compile_resume e s t)) = sessionName s"
  by (cases t) (simp_all add: frame_loop_head Let_def split: sum.splits)

lemma handleCompileAndReview_started:
  assumes "sessionName s \<noteq> []" and "files s \<noteq> []" and "\<not> isProcessing s"
  shows "handleCompileAndReview s =
     (s\<lparr>isProcessing := True, uploadStatus := noStatus,
        abortControllerRef := Some (length (controllers s)),
        controllers := controllers s @ [False]\<rparr>,
      Some (AwaitCreate (length (controllers s)) (files s)))"
  using assms by (simp add: handleCompileAndReview_def newAbortController_def)

lemma fresh_not_aborted:
  "\<not> aborted (s\<lparr>isProcessing := b, uploadStatus := u, abortControllerRef := r,
                 controllers := controllers s @ [False]\<rparr>) (length (controllers s))"
  by (simp add: aborted_def)

lemma compileAndReview_started:
  assumes "sessionName s \<noteq> []" and "files s \<noteq> []" and "\<not> isProcessing s"
  shows "compileAndReview e s =
     run_loop e (s\<lparr>isProcessing := True, uploadStatus := noStatus,
        abortControllerRef := Some (length (controllers s)),
        controllers := controllers s @ [False]\<rparr>) (length (controllers s)) (files s) []"
  using assms
  by (simp add: compileAndReview_def handleCompileAndReview_started compile_run_AwaitCreate)

lemma filePages_read_fails:
  "readFile e f = None \<Longrightarrow> filePages e f = Inl NonError"
  by (simp add: filePages_def readFileAsArrayBuffer_def)

lemma filePages_parse_fails:
  "readFile e f = Some b \<Longrightarrow> pdfLoad e b = Inl m \<Longrightarrow> filePages e f = Inl (JsError m)"
  by (simp add: filePages_def readFileAsArrayBuffer_def PDFDocument_load_def)

lemma filePages_parsed:
  "readFile e f = Some b \<Longrightarrow> pdfLoad e b = Inr doc \<Longrightarrow> filePages e f = Inr doc"
  by (simp add: filePages_def readFileAsArrayBuffer_def PDFDocument_load_def)

lemma filePages_Inl_cases:
  assumes "filePages e f = Inl err"
  shows "(readFile e f = None \<and> err = NonError)
         \<or> (\<exists>b m. readFile e f = Some b \<and> pdfLoad e b = Inl m \<and> err = JsError m)"
proof (cases "readFile e f")
  case None
  then show ?thesis
    using assms by (simp add: filePages_read_fails)
next
  case (Some b)
  show ?thesis
  proof (cases "pdfLoad e b")
    case (Inl m)
    then show ?thesis
      using assms Some by (simp add: filePages_parse_fails)
  next
    case (Inr doc)
    then show ?thesis
      using assms Some by (simp add: filePages_parsed)
  qed
qed

lemma map_filePages_parsed:
  "map (readFile e) fs = map Some buffers \<Longrightarrow> map (pdfLoad e) buffers = map Inr docs \<Longrightarrow>
   map (filePages e) fs = map Inr docs"
proof (induction fs arbitrary: buffers docs)
  case Nil
  then show ?case by simp
next
  case (Cons f fs)
  from Cons.prems(1) obtain b bs where bs: "buffers = b # bs" and rf: "readFile e f = Some b"
    and rest1: "map (readFile e) fs = map Some bs"
    by (cases buffers) auto
  from Cons.prems(2) bs obtain d ds where ds: "docs = d # ds" and pl: "pdfLoad e b = Inr d"
    and rest2: "map (pdfLoad e) bs = map Inr ds"
    by (cases docs) auto
  show ?case
    using Cons.IH [OF rest1 rest2] filePages_parsed [OF rf pl] by (simp add: ds)
qed

lemma save_nonempty: "doc \<noteq> [] \<Longrightarrow> save doc = doc"
  by (simp add: save_def)

lemma save_empty: "save [] = [blankPage]"
  by (simp add: save_def addPage_def)

lemma save_eq: "save doc = (if doc = [] then [blankPage] else doc)"
  by (simp add: save_def addPage_def)

section \<open>The claims about compiling\<close>

text \<open>
  C4, as the code has it. When the compile is admitted and every file of the set is read
  and parses, the documents being \<open>docs\<close> in the order of the file set, the compile run
  to its end stores as artifact what \<open>save\<close> makes of the document whose pages are the
  pages of the first document, then those of the second, and so on, each in its own order
  (\<open>concat docs\<close>). When some document has a page, the artifact is exactly that
  concatenation: nothing is reordered, dropped or merged, and the number of pages is the
  sum of the numbers of pages of the inputs. When no document has a page, the artifact is
  the document of one blank page. The preview is open and the processing flag is down.
  Documents of two, three and one pages give the six pages doc1.p1, doc1.p2, doc2.p1,
  doc2.p2, doc2.p3, doc3.p1.
\<close>

theorem C4_merge_concatenates_pages:
  assumes "sessionName s \<noteq> []" and "files s \<noteq> []" and "\<not> isProcessing s"
    and "map (readFile e) (files s) = map Some buffers"
    and "map (pdfLoad e) buffers = map Inr docs"
  shows "compileAndReview e s =
           s\<lparr>compiledPdfBlob := Some (if concat docs = [] then [blankPage] else concat docs),
             isPreviewOpen := True,
             isProcessing := False, uploadStatus := noStatus,
             abortControllerRef := Some (length (controllers s)),
             controllers := controllers s @ [False]\<rparr>
         \<and> (concat docs \<noteq> [] \<longrightarrow>
              compiledPdfBlob (compileAndReview e s) = Some (concat docs)
              \<and> length (concat docs) = sum_list (map length docs))
         \<and> (concat docs = [] \<longrightarrow>
              compiledPdfBlob (compileAndReview e s) = Some [blankPage])"
proof -
  let ?s1 = "s\<lparr>isProcessing := True, uploadStatus := noStatus,
        abortControllerRef := Some (length (controllers s)),
        controllers := controllers s @ [False]\<rparr>"
  have parsed: "map (filePages e) (files s) = map Inr docs"
    using assms(4,5) by (rule map_filePages_parsed)
  have sv: "save (concat docs) = (if concat docs = [] then [blankPage] else concat docs)"
    by (rule save_eq)
  have "compileAndReview e s = run_loop e ?s1 (length (controllers s)) (files s) []"
    using assms(1-3) by (rule compileAndReview_started)
  also have "\<dots> = ?s1\<lparr>compiledPdfBlob := Some (save ([] @ concat docs)),
       isPreviewOpen := True, isProcessing := False\<rparr>"
    using fresh_not_aborted parsed by (rule run_loop_all_parsed)
  finally have r: "compileAndReview e s =
      ?s1\<lparr>compiledPdfBlob := Some (save (concat docs)),
       isPreviewOpen := True, isProcessing := False\<rparr>"
    by simp
  have eq: "compileAndReview e s =
           s\<lparr>compiledPdfBlob := Some (if concat docs = [] then [blankPage] else concat docs),
             isPreviewOpen := True,
             isProcessing := False, uploadStatus := noStatus,
             abortControllerRef := Some (length (controllers s)),
             controllers := controllers s @ [False]\<rparr>"
    unfolding r sv by simp
  have blob: "compiledPdfBlob (compileAndReview e s) = Some (save (concat docs))"
    by (simp add: r)
  have ne: "concat docs \<noteq> [] \<longrightarrow>
              compiledPdfBlob (compileAndReview e s) = Some (concat docs)
              \<and> length (concat docs) = sum_list (map length docs)"
  proof
    assume "concat docs \<noteq> []"
    then have "save (concat docs) = concat docs"
      by (rule save_nonempty)
    then show "compiledPdfBlob (compileAndReview e s) = Some (concat docs)
              \<and> length (concat docs) = sum_list (map length docs)"
      using blob by (simp add: length_concat)
  qed
  have em: "concat docs = [] \<longrightarrow>
              compiledPdfBlob (compileAndReview e s) = Some [blankPage]"
  proof
    assume h: "concat docs = []"
    have "save (concat docs) = [blankPage]"
      unfolding h by (rule save_empty)
    then show "compiledPdfBlob (compileAndReview e s) = Some [blankPage]"
      using blob by simp
  qed
  show ?thesis
    using eq ne em by blast
qed

theorem C4_merge_concatenates_pages_witness:
  "compiledPdfBlob (compileAndReview goodEnv readyApp) =
     Some [''doc1.p1'', ''doc1.p2'', ''doc2.p1'', ''doc2.p2'', ''doc2.p3'', ''doc3.p1'']
   \<and> isPreviewOpen (compileAndReview goodEnv readyApp)"
proof -
  let ?docs = "[[''doc1.p1'', ''doc1.p2''], [''doc2.p1'', ''doc2.p2'', ''doc2.p3''],
                [''doc3.p1'']]"
  have 1: "sessionName readyApp \<noteq> []" and 2: "files readyApp \<noteq> []"
    and 3: "\<not> isProcessing readyApp"
    by (simp_all add: readyApp_def initialApp_def)
  have 4: "map (readFile goodEnv) (files readyApp) = map Some [[1], [2], [3]]"
    by (simp add: readyApp_def initialApp_def goodEnv_def fileA_def fileB_def fileC_def)
  have 5: "map (pdfLoad goodEnv) [[1], [2], [3]] = map Inr ?docs"
    by (simp add: goodEnv_def)
  have 6: "concat ?docs \<noteq> []"
    by simp
  have "compiledPdfBlob (compileAndReview goodEnv readyApp) = Some (concat ?docs)"
    using C4_merge_concatenates_pages [OF 1 2 3 4 5] 6 by blast
  moreover have "isPreviewOpen (compileAndReview goodEnv readyApp)"
    using C4_merge_concatenates_pages [OF 1 2 3 4 5] by simp
  ultimately show ?thesis
    by simp
qed

text \<open>
  C4, as it is stated, fails for documents without pages. In \<open>zeroPageEnv\<close> the three
  files of \<open>readyApp\<close> are read and parse to documents of no page: the sum of the page
  counts is zero and the concatenation of the pages is empty, yet the artifact has one
  page, the blank page that \<open>save\<close> adds.
\<close>

theorem C4_zero_pages_counterexample:
  "map (readFile zeroPageEnv) (files readyApp) = map Some [[1], [2], [3]]
   \<and> map (pdfLoad zeroPageEnv) [[1], [2], [3]] = map Inr [[], [], []]
   \<and> sum_list (map length [[], [], [] :: PDFDocument]) = 0
   \<and> compiledPdfBlob (compileAndReview zeroPageEnv readyApp) = Some [blankPage]
   \<and> compiledPdfBlob (compileAndReview zeroPageEnv readyApp)
       \<noteq> Some (concat [[], [], []])"
proof -
  let ?s1 = "readyApp\<lparr>isProcessing := True, uploadStatus := noStatus,
        abortControllerRef := Some (length (controllers readyApp)),
        controllers := controllers readyApp @ [False]\<rparr>"
  have 1: "sessionName readyApp \<noteq> []" and 2: "files readyApp \<noteq> []"
    and 3: "\<not> isProcessing readyApp"
    by (simp_all add: readyApp_def initialApp_def)
  have 4: "map (readFile zeroPageEnv) (files readyApp) = map Some [[1], [2], [3]]"
    by (simp add: readyApp_def initialApp_def zeroPageEnv_def fileA_def fileB_def fileC_def)
  have 5: "map (pdfLoad zeroPageEnv) [[1], [2], [3]] = map Inr [[], [], []]"
    by (simp add: zeroPageEnv_def)
  have parsed: "map (filePages zeroPageEnv) (files readyApp) = map Inr [[], [], []]"
    using 4 5 by (rule map_filePages_parsed)
  have "compileAndReview zeroPageEnv readyApp
          = run_loop zeroPageEnv ?s1 (length (controllers readyApp)) (files readyApp) []"
    using 1 2 3 by (rule compileAndReview_started)
  also have "\<dots> = ?s1\<lparr>compiledPdfBlob := Some (save ([] @ concat [[], [], []])),
       isPreviewOpen := True, isProcessing := False\<rparr>"
    using fresh_not_aborted parsed by (rule run_loop_all_parsed)
  finally have "compiledPdfBlob (compileAndReview zeroPageEnv readyApp) = Some [blankPage]"
    by (simp add: save_empty)
  then show ?thesis
    using 4 5 by simp
qed

text \<open>
  C6. When the compile is admitted and, for some file of the set, the reader fails or
  the buffer it delivers does not parse, the compile run to its end leaves the processing
  flag down and an error notice: the fixed text
  \<open>An unknown error occurred during file processing.\<close> for a file whose read failed, or
  \<open>Failed to process files:\<close> followed by the message of the parser for a file whose
  buffer did not parse. The file set, the session name, the artifact and the preview flag
  are the ones the compile started with. Moreover no continuation of a compile, resumed in
  whatever state, changes the file set or the session name.
\<close>

theorem C6_failed_compile_keeps_session:
  assumes "sessionName s \<noteq> []" and "files s \<noteq> []" and "\<not> isProcessing s"
    and "\<exists>f \<in> set (files s).
           readFile e f = None \<or> (\<exists>b m. readFile e f = Some b \<and> pdfLoad e b = Inl m)"
  shows "(\<exists>f \<in> set (files s).
            (readFile e f = None \<and>
             uploadStatus (compileAndReview e s) =
               \<lparr>stype = Some error,
                message = ''An unknown error occurred during file processing.''\<rparr>)
            \<or> (\<exists>b m. readFile e f = Some b \<and> pdfLoad e b = Inl m \<and>
                 uploadStatus (compileAndReview e s) =
                   \<lparr>stype = Some error, message = ''Failed to process files: '' @ m\<rparr>))
         \<and> stype (uploadStatus (compileAndReview e s)) = Some error
         \<and> message (uploadStatus (compileAndReview e s)) \<noteq> []
         \<and> \<not> isProcessing (compileAndReview e s)
         \<and> files (compileAndReview e s) = files s
         \<and> sessionName (compileAndReview e s) = sessionName s
         \<and> compiledPdfBlob (compileAndReview e s) = compiledPdfBlob s
         \<and> isPreviewOpen (compileAndReview e s) = isPreviewOpen s
         \<and> files (fst (compile_resume e s' t)) = files s'
         \<and> sessionName (fst (compile_resume e s' t)) = sessionName s'"
proof -
  let ?s1 = "s\<lparr>isProcessing := True, uploadStatus := noStatus,
        abortControllerRef := Some (length (controllers s)),
        controllers := controllers s @ [False]\<rparr>"
  from assms(4) obtain f0 where f0: "f0 \<in> set (files s)"
    and c0: "readFile e f0 = None \<or> (\<exists>b m. readFile e f0 = Some b \<and> pdfLoad e b = Inl m)"
    by blast
  have "isl (filePages e f0)"
    using c0 filePages_read_fails [of e f0] filePages_parse_fails [of e f0] by auto
  with f0 have "\<exists>f \<in> set (files s). isl (filePages e f)"
    by blast
  then obtain f where fnd: "find (\<lambda>f. isl (filePages e f)) (files s) = Some f"
    by (cases "find (\<lambda>f. isl (filePages e f)) (files s)") (auto simp: find_None_iff)
  then have mem: "f \<in> set (files s)" and "isl (filePages e f)"
    by (auto simp: find_Some_iff)
  then obtain err where err: "filePages e f = Inl err"
    by (cases "filePages e f") auto
  let ?msg = "if instanceofError err then ''Failed to process files: '' @ message_of err
              else ''An unknown error occurred during file processing.''"
  have "compileAndReview e s = run_loop e ?s1 (length (controllers s)) (files s) []"
    using assms(1-3) by (rule compileAndReview_started)
  also have "\<dots> = ?s1\<lparr>uploadStatus := \<lparr>stype = Some error, message = ?msg\<rparr>,
       isProcessing := False\<rparr>"
    using fresh_not_aborted fnd err by (rule run_loop_failure)
  finally have r: "compileAndReview e s =
      ?s1\<lparr>uploadStatus := \<lparr>stype = Some error, message = ?msg\<rparr>, isProcessing := False\<rparr>" .
  have us: "uploadStatus (compileAndReview e s) = \<lparr>stype = Some error, message = ?msg\<rparr>"
    by (simp add: r)
  have "(readFile e f = None \<and>
             uploadStatus (compileAndReview e s) =
               \<lparr>stype = Some error,
                message = ''An unknown error occurred during file processing.''\<rparr>)
            \<or> (\<exists>b m. readFile e f = Some b \<and> pdfLoad e b = Inl m \<and>
                 uploadStatus (compileAndReview e s) =
                   \<lparr>stype = Some error, message = ''Failed to process files: '' @ m\<rparr>)"
    using filePages_Inl_cases [OF err] us by auto
  with mem have ex: "\<exists>f \<in> set (files s).
            (readFile e f = None \<and>
             uploadStatus (compileAndReview e s) =
               \<lparr>stype = Some error,
                message = ''An unknown error occurred during file processing.''\<rparr>)
            \<or> (\<exists>b m. readFile e f = Some b \<and> pdfLoad e b = Inl m \<and>
                 uploadStatus (compileAndReview e s) =
                   \<lparr>stype = Some error, message = ''Failed to process files: '' @ m\<rparr>)"
    by blast
  have rest: "stype (uploadStatus (compileAndReview e s)) = Some error
         \<and> message (uploadStatus (compileAndReview e s)) \<noteq> []
         \<and> \<not> isProcessing (compileAndReview e s)
         \<and> files (compileAndReview e s) = files s
         \<and> sessionName (compileAndReview e s) = sessionName s
         \<and> compiledPdfBlob (compileAndReview e s) = compiledPdfBlob s
         \<and> isPreviewOpen (compileAndReview e s) = isPreviewOpen s"
    by (simp add: r)
  show ?thesis
    using ex rest compile_resume_frame [of e s' t] by blast
qed

theorem C6_failed_compile_keeps_session_witness:
  "readFile unreadableEnv fileC = None
   \<and> uploadStatus (compileAndReview unreadableEnv readyApp) =
       \<lparr>stype = Some error, message = ''An unknown error occurred during file processing.''\<rparr>
   \<and> files (compileAndReview unreadableEnv readyApp) = [fileA, fileC, fileB]
   \<and> readFile badEnv fileC = Some [2] \<and> pdfLoad badEnv [2] = Inl ''No PDF header found''
   \<and> uploadStatus (compileAndReview badEnv readyApp) =
       \<lparr>stype = Some error, message = ''Failed to process files: No PDF header found''\<rparr>
   \<and> \<not> isProcessing (compileAndReview badEnv readyApp)
   \<and> files (compileAndReview badEnv readyApp) = [fileA, fileC, fileB]
   \<and> sessionName (compileAndReview badEnv readyApp) = ''Q3 Sales Review''"
proof -
  have 1: "sessionName readyApp \<noteq> []" and 2: "files readyApp \<noteq> []"
    and 3: "\<not> isProcessing readyApp"
    by (simp_all add: readyApp_def initialApp_def)
  have fs: "files readyApp = [fileA, fileC, fileB]"
    and nm: "sessionName readyApp = ''Q3 Sales Review''"
    by (simp_all add: readyApp_def initialApp_def)
  have uA: "readFile unreadableEnv fileA = Some [1]" "pdfLoad unreadableEnv [1] = Inr [''doc1.p1'', ''doc1.p2'']"
    and uB: "readFile unreadableEnv fileB = Some [3]" "pdfLoad unreadableEnv [3] = Inr [''doc3.p1'']"
    and uC: "readFile unreadableEnv fileC = None"
    by (simp_all add: unreadableEnv_def fileA_def fileB_def fileC_def)
  have bA: "readFile badEnv fileA = Some [1]" "pdfLoad badEnv [1] = Inr [''doc1.p1'', ''doc1.p2'']"
    and bB: "readFile badEnv fileB = Some [3]" "pdfLoad badEnv [3] = Inr [''doc3.p1'']"
    and bC: "readFile badEnv fileC = Some [2]" "pdfLoad badEnv [2] = Inl ''No PDF header found''"
    by (simp_all add: badEnv_def fileA_def fileB_def fileC_def)
  have 4: "\<exists>f \<in> set (files readyApp).
           readFile unreadableEnv f = None
           \<or> (\<exists>b m. readFile unreadableEnv f = Some b \<and> pdfLoad unreadableEnv b = Inl m)"
    using uC by (simp add: fs)
  have 5: "\<exists>f \<in> set (files readyApp).
           readFile badEnv f = None
           \<or> (\<exists>b m. readFile badEnv f = Some b \<and> pdfLoad badEnv b = Inl m)"
    using bC by (simp add: fs)
  have U: "uploadStatus (compileAndReview unreadableEnv readyApp) =
       \<lparr>stype = Some error, message = ''An unknown error occurred during file processing.''\<rparr>
     \<and> files (compileAndReview unreadableEnv readyApp) = [fileA, fileC, fileB]"
    using C6_failed_compile_keeps_session [OF 1 2 3 4] uA uB uC
    by (auto simp: fs)
  have B: "uploadStatus (compileAndReview badEnv readyApp) =
       \<lparr>stype = Some error, message = ''Failed to process files: No PDF header found''\<rparr>
     \<and> \<not> isProcessing (compileAndReview badEnv readyApp)
     \<and> files (compileAndReview badEnv readyApp) = [fileA, fileC, fileB]
     \<and> sessionName (compileAndReview badEnv readyApp) = ''Q3 Sales Review''"
    using C6_failed_compile_keeps_session [OF 1 2 3 5] bA bB bC
    by (auto simp: fs nm)
  show ?thesis
    using U B uC bC by simp
qed

text \<open>
  C7. When the session name is empty, or the file set is empty, or an operation is in
  progress, the call of the compile handler returns the state it was given, component by
  component (no notice, no change of the processing flag, no controller allocated), and
  suspends nothing; no error value is produced.
\<close>

theorem C7_compile_guard_unmet_is_noop:
  assumes "sessionName s = [] \<or> files s = [] \<or> isProcessing s"
  shows "handleCompileAndReview s = (s, None) \<and> compileAndReview e s = s"
  using assms by (auto simp: handleCompileAndReview_def compileAndReview_def)

theorem C7_compile_guard_unmet_is_noop_witness:
  "files (initialApp\<lparr>files := [fileA]\<rparr>) \<noteq> []
   \<and> handleCompileAndReview (initialApp\<lparr>files := [fileA]\<rparr>)
       = (initialApp\<lparr>files := [fileA]\<rparr>, None)"
proof -
  have "sessionName (initialApp\<lparr>files := [fileA]\<rparr>) = []
        \<or> files (initialApp\<lparr>files := [fileA]\<rparr>) = []
        \<or> isProcessing (initialApp\<lparr>files := [fileA]\<rparr>)"
    by (simp add: initialApp_def)
  then show ?thesis
    using C7_compile_guard_unmet_is_noop [of "initialApp\<lparr>files := [fileA]\<rparr>"] by simp
qed


section \<open>Facts about Reset, abortion and the submit\<close>

lemma compilingApp_eq:
  "compilingApp = readyApp\<lparr>isProcessing := True, abortControllerRef := Some 0,
     controllers := [False]\<rparr>"
  by (simp add: compilingApp_def handleCompileAndReview_def newAbortController_def
        readyApp_def initialApp_def)

lemma submittingApp_eq:
  "submittingApp = previewingApp\<lparr>isProcessing := True, abortControllerRef := Some 1,
     controllers := [False, False]\<rparr>"
  by (simp add: submittingApp_def handleFinalSubmit_def newAbortController_def
        previewingApp_def readyApp_def initialApp_def)

lemma handleReset_eq:
  "handleReset s = s\<lparr>sessionName := [], files := [], isProcessing := False,
     uploadStatus := noStatus, isPreviewOpen := False, compiledPdfBlob := None,
     controllers := controllers (abortCurrent s)\<rparr>"
  by (simp add: handleReset_def handleClosePreview_def abortCurrent_def Let_def
           split: option.splits)

lemma aborted_handleReset:
  "abortControllerRef s = Some signal \<Longrightarrow> signal < length (controllers s) \<Longrightarrow>
   aborted (handleReset s) signal"
  by (simp add: handleReset_eq aborted_def abortCurrent_def)

lemma submit_catch_aborted:
  "aborted s signal \<Longrightarrow> isAbortError err \<Longrightarrow>
   submit_catch s signal err = s\<lparr>uploadStatus := cancelledStatus\<rparr>"
  by (simp add: submit_catch_def finally_block_def cancelledStatus_def)

lemma submit_resume_fetch_aborted:
  "aborted s signal \<Longrightarrow>
   submit_resume_fetch s signal outcome = (s\<lparr>uploadStatus := cancelledStatus\<rparr>, None)"
  by (simp add: submit_resume_fetch_def abortable_def submit_catch_aborted)

lemma submit_resume_text_aborted:
  "aborted s signal \<Longrightarrow>
   submit_resume_text s signal response outcome = s\<lparr>uploadStatus := cancelledStatus\<rparr>"
  by (simp add: submit_resume_text_def abortable_def submit_catch_aborted)

lemma uploadStatus_finally_block [simp]:
  "uploadStatus (finally_block s signal) = uploadStatus s"
  by (simp add: finally_block_def)

lemma uploadStatus_submit_catch:
  "uploadStatus (submit_catch s signal err) =
     (if isAbortError err then cancelledStatus
      else \<lparr>stype = Some error,
            message = (if instanceofError err then message_of err
                       else ''An unknown error occurred.'')\<rparr>)"
  by (simp add: submit_catch_def cancelledStatus_def Let_def)

lemma aborted_finally_block [simp]: "aborted (finally_block s signal) c = aborted s c"
  by (simp add: finally_block_def)

lemma aborted_compile_catch [simp]: "aborted (compile_catch s signal err) c = aborted s c"
  by (simp add: compile_catch_def Let_def)

lemma aborted_submit_catch [simp]: "aborted (submit_catch s signal err) c = aborted s c"
  by (simp add: submit_catch_def Let_def)

lemma nth_list_update_True: "c < length xs \<Longrightarrow> xs ! c \<Longrightarrow> xs[i := True] ! c"
  by (cases "i < length xs") (simp_all add: nth_list_update)

lemma aborted_abortCurrent: "aborted s c \<Longrightarrow> aborted (abortCurrent s) c"
  by (simp add: abortCurrent_def aborted_def nth_list_update_True split: option.splits)

lemma aborted_newAbortController:
  "aborted s c \<Longrightarrow> aborted (fst (newAbortController s)) c"
  by (auto simp: newAbortController_def aborted_def nth_append)

lemma aborted_loop_head: "aborted (fst (loop_head s signal fs merged)) c = aborted s c"
  by (cases fs) simp_all

text \<open>
  An aborted signal stays aborted: no handler and no continuation clears the flag of a
  controller, so a continuation that runs at any later moment still sees it.
\<close>

lemma aborted_persists:
  assumes "aborted s c"
  shows "aborted (handleFilesAdded newFiles s) c"
    and "aborted (handleRemoveFile f s) c"
    and "aborted (setSessionName v s) c"
    and "aborted (handleToastClose s) c"
    and "aborted (handleClosePreview s) c"
    and "aborted (handleReset s) c"
    and "aborted (fst (handleCompileAndReview s)) c"
    and "aborted (fst (handleFinalSubmit s)) c"
    and "aborted (fst (compile_resume e s t)) c"
    and "aborted (fst (submit_resume_fetch s signal outcome)) c"
    and "aborted (submit_resume_text s signal response outcome') c"
proof -
  show "aborted (handleFilesAdded newFiles s) c"
    using assms by (simp add: handleFilesAdded_def Let_def)
  show "aborted (handleRemoveFile f s) c"
    using assms by (simp add: handleRemoveFile_def)
  show "aborted (setSessionName v s) c"
    using assms by (simp add: setSessionName_def)
  show "aborted (handleToastClose s) c"
    using assms by (simp add: handleToastClose_def)
  show "aborted (handleClosePreview s) c"
    using assms by (simp add: handleClosePreview_def)
  show "aborted (handleReset s) c"
    using aborted_abortCurrent [OF assms]
    by (simp add: handleReset_def handleClosePreview_def Let_def)
  show "aborted (fst (handleCompileAndReview s)) c"
    using assms aborted_newAbortController [OF assms]
    by (simp add: handleCompileAndReview_def split_beta Let_def)
  show "aborted (fst (handleFinalSubmit s)) c"
    using assms aborted_newAbortController [OF assms]
    by (simp add: handleFinalSubmit_def split_beta Let_def)
  show "aborted (fst (compile_resume e s t)) c"
    using assms by (cases t) (simp_all add: aborted_loop_head Let_def split: sum.splits)
  show "aborted (fst (submit_resume_fetch s signal outcome)) c"
    using assms
    by (simp add: submit_resume_fetch_def handleClosePreview_def Let_def split: sum.splits)
  show "aborted (submit_resume_text s signal response outcome') c"
    using assms by (simp add: submit_resume_text_def split: sum.splits)
qed

section \<open>The claims about submitting\<close>

lemma handleFinalSubmit_started:
  assumes "compiledPdfBlob s \<noteq> None" and "sessionName s \<noteq> []" and "\<not> isProcessing s"
  shows "handleFinalSubmit s =
     (s\<lparr>isProcessing := True, abortControllerRef := Some (length (controllers s)),
        controllers := controllers s @ [False]\<rparr>,
      Some (AwaitFetch (length (controllers s))))"
  using assms by (simp add: handleFinalSubmit_def newAbortController_def)

lemma fresh_not_aborted_submit:
  "\<not> aborted (s\<lparr>isProcessing := b, abortControllerRef := r,
                 controllers := controllers s @ [False]\<rparr>) (length (controllers s))"
  by (simp add: aborted_def)

text \<open>
  C5. When the submit is admitted and the request is answered with a status from 200 to
  299, the submit run to its end leaves the session name empty, the file set empty, no
  artifact, the preview closed, the processing flag down and a notice of kind success;
  the only other change is the controller the submit allocated. The same holds when other
  handlers ran while the request was pending, as long as the signal was not aborted: the
  continuation sets these components whatever they were.
\<close>

theorem C5_successful_submit_clears_session:
  assumes "compiledPdfBlob s \<noteq> None" and "sessionName s \<noteq> []" and "\<not> isProcessing s"
    and "fetchOutcome net = Inr response" and "ok response"
  shows "finalSubmit net s =
           s\<lparr>sessionName := [], files := [], isProcessing := False,
             uploadStatus := \<lparr>stype = Some success,
                              message = ''Upload successful! Your merged PDF was sent.''\<rparr>,
             isPreviewOpen := False, compiledPdfBlob := None,
             abortControllerRef := Some (length (controllers s)),
             controllers := controllers s @ [False]\<rparr>
         \<and> (\<not> aborted s' signal \<longrightarrow>
              submit_resume_fetch s' signal (Inr response) =
                (s'\<lparr>sessionName := [], files := [], isProcessing := False,
                    uploadStatus := \<lparr>stype = Some success,
                       message = ''Upload successful! Your merged PDF was sent.''\<rparr>,
                    isPreviewOpen := False, compiledPdfBlob := None\<rparr>, None))"
proof -
  have run: "finalSubmit net s =
           s\<lparr>sessionName := [], files := [], isProcessing := False,
             uploadStatus := \<lparr>stype = Some success,
                              message = ''Upload successful! Your merged PDF was sent.''\<rparr>,
             isPreviewOpen := False, compiledPdfBlob := None,
             abortControllerRef := Some (length (controllers s)),
             controllers := controllers s @ [False]\<rparr>"
    using assms(4,5) fresh_not_aborted_submit [where s = s and b = True]
    by (simp add: finalSubmit_def handleFinalSubmit_started [OF assms(1-3)]
          submit_resume_fetch_def abortable_def handleClosePreview_def finally_block_def)
  have step: "\<not> aborted s' signal \<longrightarrow>
              submit_resume_fetch s' signal (Inr response) =
                (s'\<lparr>sessionName := [], files := [], isProcessing := False,
                    uploadStatus := \<lparr>stype = Some success,
                       message = ''Upload successful! Your merged PDF was sent.''\<rparr>,
                    isPreviewOpen := False, compiledPdfBlob := None\<rparr>, None)"
    using assms(5)
    by (simp add: submit_resume_fetch_def abortable_def handleClosePreview_def
          finally_block_def)
  show ?thesis
    using run step by blast
qed

theorem C5_successful_submit_clears_session_witness:
  "sessionName (finalSubmit \<lparr>fetchOutcome = Inr \<lparr>status = 200, statusText = ''OK''\<rparr>,
                             textOutcome = Inr []\<rparr> previewingApp) = []
   \<and> files (finalSubmit \<lparr>fetchOutcome = Inr \<lparr>status = 200, statusText = ''OK''\<rparr>,
                         textOutcome = Inr []\<rparr> previewingApp) = []
   \<and> stype (uploadStatus (finalSubmit \<lparr>fetchOutcome = Inr \<lparr>status = 200, statusText = ''OK''\<rparr>,
                         textOutcome = Inr []\<rparr> previewingApp)) = Some success
   \<and> compiledPdfBlob (finalSubmit \<lparr>fetchOutcome = Inr \<lparr>status = 200, statusText = ''OK''\<rparr>,
                         textOutcome = Inr []\<rparr> previewingApp) = None"
proof -
  let ?net = "\<lparr>fetchOutcome = Inr \<lparr>status = 200, statusText = ''OK''\<rparr>, textOutcome = Inr []\<rparr>"
  have 1: "compiledPdfBlob previewingApp \<noteq> None" and 2: "sessionName previewingApp \<noteq> []"
    and 3: "\<not> isProcessing previewingApp"
    by (simp_all add: previewingApp_def readyApp_def initialApp_def)
  have 4: "fetchOutcome ?net = Inr \<lparr>status = 200, statusText = ''OK''\<rparr>" by simp
  have 5: "ok \<lparr>status = 200, statusText = ''OK''\<rparr>" by (simp add: ok_def)
  show ?thesis
    using C5_successful_submit_clears_session [OF 1 2 3 4 5] by simp
qed

text \<open>
  C2, as the code has it. A submit whose signal is aborted when the request or the read
  of the body settles ends with exactly the notice \<open>Submission cancelled.\<close> of kind
  error, and so does one whose promise rejects with an \<open>AbortError\<close>. A rejection that is
  not an \<open>AbortError\<close>, such as the \<open>TypeError\<close> of a failed transport, ends with a notice
  of kind error that carries the message of the rejection itself, or the text
  \<open>An unknown error occurred.\<close> when the rejection is not an error.
\<close>

theorem C2_cancelled_submit_notice:
  "(aborted s signal \<longrightarrow>
      submit_resume_fetch s signal outcome = (s\<lparr>uploadStatus := cancelledStatus\<rparr>, None)
      \<and> submit_resume_text s signal response outcome' = s\<lparr>uploadStatus := cancelledStatus\<rparr>)
   \<and> (isAbortError err \<longrightarrow>
        uploadStatus (fst (submit_resume_fetch s signal (Inl err))) = cancelledStatus
        \<and> uploadStatus (submit_resume_text s signal response (Inl err)) = cancelledStatus)
   \<and> (\<not> aborted s signal \<and> \<not> isAbortError err \<longrightarrow>
        uploadStatus (fst (submit_resume_fetch s signal (Inl err)))
          = \<lparr>stype = Some error,
             message = (if instanceofError err then message_of err
                        else ''An unknown error occurred.'')\<rparr>)"
proof -
  have a: "aborted s signal \<longrightarrow>
      submit_resume_fetch s signal outcome = (s\<lparr>uploadStatus := cancelledStatus\<rparr>, None)
      \<and> submit_resume_text s signal response outcome' = s\<lparr>uploadStatus := cancelledStatus\<rparr>"
    by (simp add: submit_resume_fetch_aborted submit_resume_text_aborted)
  have b: "isAbortError err \<longrightarrow>
        uploadStatus (fst (submit_resume_fetch s signal (Inl err))) = cancelledStatus
        \<and> uploadStatus (submit_resume_text s signal response (Inl err)) = cancelledStatus"
    by (simp add: submit_resume_fetch_def submit_resume_text_def abortable_def
          uploadStatus_submit_catch)
  have c: "\<not> aborted s signal \<and> \<not> isAbortError err \<longrightarrow>
        uploadStatus (fst (submit_resume_fetch s signal (Inl err)))
          = \<lparr>stype = Some error,
             message = (if instanceofError err then message_of err
                        else ''An unknown error occurred.'')\<rparr>"
    by (simp add: submit_resume_fetch_def abortable_def uploadStatus_submit_catch)
  show ?thesis
    using a b c by blast
qed


theorem C2_cancelled_submit_notice_witness:
  "aborted (handleReset submittingApp) 1
   \<and> uploadStatus (fst (submit_resume_fetch (handleReset submittingApp) 1
                          (Inr \<lparr>status = 200, statusText = ''OK''\<rparr>))) = cancelledStatus
   \<and> uploadStatus (fst (submit_resume_fetch submittingApp 1
                          (Inl (DOMException ''AbortError'' ''The user aborted a request.''))))
       = cancelledStatus
   \<and> \<not> aborted submittingApp 1
   \<and> uploadStatus (fst (submit_resume_fetch submittingApp 1 (Inl (JsError ''Failed to fetch''))))
       = \<lparr>stype = Some error, message = ''Failed to fetch''\<rparr>"
proof -
  have a: "aborted (handleReset submittingApp) 1"
    by (simp add: aborted_handleReset submittingApp_eq)
  have n: "\<not> aborted submittingApp 1"
    by (simp add: submittingApp_eq aborted_def)
  have ab: "isAbortError (DOMException ''AbortError'' ''The user aborted a request.'')"
    by simp
  have nab: "\<not> isAbortError (JsError ''Failed to fetch'')"
    by simp
  have "uploadStatus (fst (submit_resume_fetch (handleReset submittingApp) 1
                          (Inr \<lparr>status = 200, statusText = ''OK''\<rparr>))) = cancelledStatus"
    using C2_cancelled_submit_notice
            [of "handleReset submittingApp" 1 "Inr \<lparr>status = 200, statusText = ''OK''\<rparr>"] a
    by simp
  moreover have "uploadStatus (fst (submit_resume_fetch submittingApp 1
                    (Inl (DOMException ''AbortError'' ''The user aborted a request.''))))
       = cancelledStatus"
    using C2_cancelled_submit_notice
            [of submittingApp 1 _ _ _ "DOMException ''AbortError'' ''The user aborted a request.''"]
          ab
    by blast
  moreover have "uploadStatus (fst (submit_resume_fetch submittingApp 1
                    (Inl (JsError ''Failed to fetch''))))
       = \<lparr>stype = Some error, message = ''Failed to fetch''\<rparr>"
    using C2_cancelled_submit_notice [of submittingApp 1 _ _ _ "JsError ''Failed to fetch''"]
          n nab
    by simp
  ultimately show ?thesis
    using a n by simp
qed

text \<open>
  C2, as it is stated, fails for a rejected network call. The request of the submit of
  \<open>previewingApp\<close> rejects with the \<open>TypeError\<close> of message \<open>Failed to fetch\<close>: the
  notice is that message and not \<open>Submission cancelled.\<close>
\<close>

theorem C2_transport_failure_counterexample:
  "uploadStatus (finalSubmit \<lparr>fetchOutcome = Inl (JsError ''Failed to fetch''),
                              textOutcome = Inr []\<rparr> previewingApp)
     = \<lparr>stype = Some error, message = ''Failed to fetch''\<rparr>
   \<and> uploadStatus (finalSubmit \<lparr>fetchOutcome = Inl (JsError ''Failed to fetch''),
                                textOutcome = Inr []\<rparr> previewingApp)
       \<noteq> \<lparr>stype = Some error, message = ''Submission cancelled.''\<rparr>"
  by (simp add: finalSubmit_def handleFinalSubmit_def newAbortController_def
        submit_resume_fetch_def abortable_def aborted_def uploadStatus_submit_catch
        previewingApp_def readyApp_def initialApp_def)

section \<open>The claims about Reset and cancellation\<close>

text \<open>
  C1, as the code has it. Reset in any state gives the state of a freshly mounted
  component in all six pieces of React state (empty session name, empty file set,
  processing flag down, no notice, preview closed, no artifact); the controller in the
  reference is kept and its signal is aborted. A compile that was in flight and that
  comes to the test of \<open>signal.aborted\<close> at the head of a further iteration then runs to
  its end without changing the state. A submit that was in flight does change it: its
  pending promise rejects, and the continuation sets the notice \<open>Submission cancelled.\<close>
  and nothing else.
\<close>

theorem C1_reset_and_stale_completions:
  "sessionName (handleReset s) = [] \<and> files (handleReset s) = []
   \<and> \<not> isProcessing (handleReset s) \<and> uploadStatus (handleReset s) = noStatus
   \<and> \<not> isPreviewOpen (handleReset s) \<and> compiledPdfBlob (handleReset s) = None
   \<and> handleReset s = initialApp\<lparr>abortControllerRef := abortControllerRef s,
                                  controllers := controllers (abortCurrent s)\<rparr>
   \<and> (abortControllerRef s = Some signal \<and> signal < length (controllers s) \<longrightarrow>
        aborted (handleReset s) signal
        \<and> (signal_of t = signal \<and> reaches_abort_test e t \<longrightarrow>
             compile_run e (handleReset s) t = handleReset s)
        \<and> submit_resume_fetch (handleReset s) signal outcome
            = ((handleReset s)\<lparr>uploadStatus := cancelledStatus\<rparr>, None)
        \<and> submit_resume_text (handleReset s) signal response outcome'
            = (handleReset s)\<lparr>uploadStatus := cancelledStatus\<rparr>)"
proof -
  have fields: "handleReset s = initialApp\<lparr>abortControllerRef := abortControllerRef s,
                                  controllers := controllers (abortCurrent s)\<rparr>"
    by (simp add: handleReset_eq initialApp_def abortCurrent_def split: option.splits)
  have stale: "abortControllerRef s = Some signal \<and> signal < length (controllers s) \<longrightarrow>
        aborted (handleReset s) signal
        \<and> (signal_of t = signal \<and> reaches_abort_test e t \<longrightarrow>
             compile_run e (handleReset s) t = handleReset s)
        \<and> submit_resume_fetch (handleReset s) signal outcome
            = ((handleReset s)\<lparr>uploadStatus := cancelledStatus\<rparr>, None)
        \<and> submit_resume_text (handleReset s) signal response outcome'
            = (handleReset s)\<lparr>uploadStatus := cancelledStatus\<rparr>"
  proof
    assume "abortControllerRef s = Some signal \<and> signal < length (controllers s)"
    then have a: "aborted (handleReset s) signal"
      by (simp add: aborted_handleReset)
    then show "aborted (handleReset s) signal
        \<and> (signal_of t = signal \<and> reaches_abort_test e t \<longrightarrow>
             compile_run e (handleReset s) t = handleReset s)
        \<and> submit_resume_fetch (handleReset s) signal outcome
            = ((handleReset s)\<lparr>uploadStatus := cancelledStatus\<rparr>, None)
        \<and> submit_resume_text (handleReset s) signal response outcome'
            = (handleReset s)\<lparr>uploadStatus := cancelledStatus\<rparr>"
      using compile_run_observes_abort [of "handleReset s" t e]
      by (simp add: submit_resume_fetch_aborted submit_resume_text_aborted)
  qed
  have "sessionName (handleReset s) = [] \<and> files (handleReset s) = []
   \<and> \<not> isProcessing (handleReset s) \<and> uploadStatus (handleReset s) = noStatus
   \<and> \<not> isPreviewOpen (handleReset s) \<and> compiledPdfBlob (handleReset s) = None"
    by (simp add: handleReset_eq)
  then show ?thesis
    using fields stale by blast
qed


theorem C1_reset_and_stale_completions_witness:
  "abortControllerRef compilingApp = Some 0
   \<and> compile_run goodEnv (handleReset compilingApp) (AwaitRead 0 fileA [fileC, fileB] [])
       = handleReset compilingApp
   \<and> abortControllerRef submittingApp = Some 1
   \<and> submit_resume_fetch (handleReset submittingApp) 1 (Inr \<lparr>status = 200, statusText = ''OK''\<rparr>)
       = ((handleReset submittingApp)\<lparr>uploadStatus := cancelledStatus\<rparr>, None)
   \<and> handleReset submittingApp = initialApp\<lparr>abortControllerRef := Some 1,
                                               controllers := [False, True]\<rparr>"
proof -
  let ?t = "AwaitRead 0 fileA [fileC, fileB] []"
  have c: "abortControllerRef compilingApp = Some 0 \<and> 0 < length (controllers compilingApp)"
    by (simp add: compilingApp_eq)
  have t: "signal_of ?t = 0 \<and> reaches_abort_test goodEnv ?t"
    by (simp add: filePages_def readFileAsArrayBuffer_def PDFDocument_load_def goodEnv_def
          fileA_def)
  have u: "abortControllerRef submittingApp = Some 1 \<and> 1 < length (controllers submittingApp)"
    by (simp add: submittingApp_eq)
  have "compile_run goodEnv (handleReset compilingApp) ?t = handleReset compilingApp"
    using C1_reset_and_stale_completions [of compilingApp 0 ?t goodEnv] c t by blast
  moreover have "submit_resume_fetch (handleReset submittingApp) 1
                   (Inr \<lparr>status = 200, statusText = ''OK''\<rparr>)
       = ((handleReset submittingApp)\<lparr>uploadStatus := cancelledStatus\<rparr>, None)"
    using C1_reset_and_stale_completions
            [of submittingApp 1 _ _ "Inr \<lparr>status = 200, statusText = ''OK''\<rparr>"] u
    by blast
  moreover have "handleReset submittingApp = initialApp\<lparr>abortControllerRef := Some 1,
                                               controllers := [False, True]\<rparr>"
    using C1_reset_and_stale_completions [of submittingApp]
    by (simp add: submittingApp_eq abortCurrent_def)
  ultimately show ?thesis
    using c u by simp
qed

text \<open>
  C1, as it is stated, fails. The submit of \<open>previewingApp\<close> is in flight when Reset
  runs; Reset leaves no notice; the request then rejects with the \<open>AbortError\<close> and the
  continuation of the submit sets a notice of kind error, so the state is no longer the
  one Reset gave.
\<close>

theorem C1_stale_submit_counterexample:
  "handleFinalSubmit previewingApp = (submittingApp, Some (AwaitFetch 1))
   \<and> uploadStatus (handleReset submittingApp) = \<lparr>stype = None, message = []\<rparr>
   \<and> uploadStatus (fst (submit_resume_fetch (handleReset submittingApp) 1
        (Inl (DOMException ''AbortError'' ''signal is aborted without reason''))))
       = \<lparr>stype = Some error, message = ''Submission cancelled.''\<rparr>
   \<and> fst (submit_resume_fetch (handleReset submittingApp) 1
        (Inl (DOMException ''AbortError'' ''signal is aborted without reason'')))
       \<noteq> handleReset submittingApp"
proof -
  let ?r = "fst (submit_resume_fetch (handleReset submittingApp) 1
        (Inl (DOMException ''AbortError'' ''signal is aborted without reason'')))"
  have 1: "handleFinalSubmit previewingApp = (submittingApp, Some (AwaitFetch 1))"
    by (simp add: submittingApp_def handleFinalSubmit_def newAbortController_def
          previewingApp_def readyApp_def initialApp_def)
  have 2: "uploadStatus (handleReset submittingApp) = \<lparr>stype = None, message = []\<rparr>"
    by (simp add: handleReset_eq noStatus_def)
  have 3: "uploadStatus ?r = \<lparr>stype = Some error, message = ''Submission cancelled.''\<rparr>"
    by (simp add: submit_resume_fetch_def abortable_def uploadStatus_submit_catch
          cancelledStatus_def)
  from 2 3 have "uploadStatus ?r \<noteq> uploadStatus (handleReset submittingApp)"
    by simp
  then have "?r \<noteq> handleReset submittingApp"
    by metis
  with 1 2 3 show ?thesis by blast
qed

text \<open>
  C3, as the code has it. A suspended compile whose signal is aborted and that comes to
  the test of \<open>signal.aborted\<close> at the head of a further iteration runs to its end
  without changing the state at all: no notice is set, no artifact is stored and no
  preview opens. The signal is aborted by Reset only, so the state the compile settles in
  is the one Reset gave: no notice, processing flag down, no artifact, preview closed,
  and an empty file set and session name.
\<close>

theorem C3_cancelled_compile_mutates_nothing:
  "(aborted s (signal_of t) \<and> reaches_abort_test e t \<longrightarrow> compile_run e s t = s)
   \<and> (abortControllerRef s = Some (signal_of t) \<and> signal_of t < length (controllers s)
        \<and> reaches_abort_test e t \<longrightarrow>
        uploadStatus (compile_run e (handleReset s) t) = noStatus
        \<and> \<not> isProcessing (compile_run e (handleReset s) t)
        \<and> compiledPdfBlob (compile_run e (handleReset s) t) = None
        \<and> \<not> isPreviewOpen (compile_run e (handleReset s) t)
        \<and> files (compile_run e (handleReset s) t) = []
        \<and> sessionName (compile_run e (handleReset s) t) = [])"
proof -
  have g: "aborted s (signal_of t) \<and> reaches_abort_test e t \<longrightarrow> compile_run e s t = s"
    by (simp add: compile_run_observes_abort)
  have r: "abortControllerRef s = Some (signal_of t) \<and> signal_of t < length (controllers s)
        \<and> reaches_abort_test e t \<longrightarrow> compile_run e (handleReset s) t = handleReset s"
    by (simp add: compile_run_observes_abort aborted_handleReset)
  show ?thesis
    using g r by (auto simp: handleReset_eq)
qed

theorem C3_cancelled_compile_mutates_nothing_witness:
  "aborted (handleReset compilingApp) 0
   \<and> compile_run goodEnv (handleReset compilingApp) (AwaitCopy 0 [''doc1.p1'', ''doc1.p2'']
        [fileC, fileB] []) = handleReset compilingApp
   \<and> uploadStatus (compile_run goodEnv (handleReset compilingApp)
        (AwaitCopy 0 [''doc1.p1'', ''doc1.p2''] [fileC, fileB] [])) = noStatus
   \<and> files (compile_run goodEnv (handleReset compilingApp)
        (AwaitCopy 0 [''doc1.p1'', ''doc1.p2''] [fileC, fileB] [])) = []"
proof -
  let ?t = "AwaitCopy 0 [''doc1.p1'', ''doc1.p2''] [fileC, fileB] []"
  have a: "aborted (handleReset compilingApp) (signal_of ?t) \<and> reaches_abort_test goodEnv ?t"
    by (simp add: aborted_handleReset compilingApp_eq)
  have c: "abortControllerRef compilingApp = Some (signal_of ?t)
           \<and> signal_of ?t < length (controllers compilingApp)
           \<and> reaches_abort_test goodEnv ?t"
    by (simp add: compilingApp_eq)
  have "compile_run goodEnv (handleReset compilingApp) ?t = handleReset compilingApp"
    using C3_cancelled_compile_mutates_nothing [of "handleReset compilingApp" ?t goodEnv] a
    by blast
  moreover have "uploadStatus (compile_run goodEnv (handleReset compilingApp) ?t) = noStatus
     \<and> files (compile_run goodEnv (handleReset compilingApp) ?t) = []"
    using C3_cancelled_compile_mutates_nothing [of compilingApp ?t goodEnv] c
    by blast
  ultimately show ?thesis
    using a by simp
qed

text \<open>
  C3, as it is stated, fails. The compile of \<open>readyApp\<close> is reading its first file when
  Reset aborts the signal; the read and the parse succeed, the head of the next iteration
  sees the aborted signal and the compile ends. The file set and the session name are
  then empty, not the three files and the name the compile started with.
\<close>

theorem C3_cancelled_compile_counterexample:
  "handleCompileAndReview readyApp = (compilingApp, Some (AwaitCreate 0 [fileA, fileC, fileB]))
   \<and> compile_resume goodEnv compilingApp (AwaitCreate 0 [fileA, fileC, fileB])
       = (compilingApp, Some (AwaitRead 0 fileA [fileC, fileB] []))
   \<and> aborted (handleReset compilingApp) 0
   \<and> compile_run goodEnv (handleReset compilingApp) (AwaitRead 0 fileA [fileC, fileB] [])
       = handleReset compilingApp
   \<and> files (handleReset compilingApp) = []
   \<and> files (handleReset compilingApp) \<noteq> files readyApp
   \<and> sessionName (handleReset compilingApp) = []
   \<and> sessionName (handleReset compilingApp) \<noteq> sessionName readyApp"
proof -
  let ?t = "AwaitRead 0 fileA [fileC, fileB] []"
  have 1: "handleCompileAndReview readyApp
             = (compilingApp, Some (AwaitCreate 0 [fileA, fileC, fileB]))"
    by (simp add: compilingApp_def handleCompileAndReview_def newAbortController_def
          readyApp_def initialApp_def)
  have 2: "compile_resume goodEnv compilingApp (AwaitCreate 0 [fileA, fileC, fileB])
             = (compilingApp, Some ?t)"
    by (simp add: compilingApp_eq aborted_def)
  have 3: "aborted (handleReset compilingApp) 0"
    by (simp add: aborted_handleReset compilingApp_eq)
  have "reaches_abort_test goodEnv ?t"
    by (simp add: filePages_def readFileAsArrayBuffer_def PDFDocument_load_def goodEnv_def
          fileA_def)
  with 3 have 4: "compile_run goodEnv (handleReset compilingApp) ?t = handleReset compilingApp"
    by (simp add: compile_run_observes_abort)
  have 5: "files (handleReset compilingApp) = [] \<and> sessionName (handleReset compilingApp) = []"
    by (simp add: handleReset_eq)
  have 6: "[] \<noteq> files readyApp \<and> [] \<noteq> sessionName readyApp"
    by (simp add: readyApp_def initialApp_def)
  show ?thesis
    using 1 2 3 4 5 6 by simp
qed

text \<open>
  The two ways in which a compile does not come to the test after Reset, and what its
  continuation then does to the state Reset gave. Reset runs while the last file is
  read: the loop ends, the artifact is stored and the preview opens. Reset runs while a
  file is read whose parse then fails: the error notice is set.
\<close>

lemma stale_compile_after_reset_examples:
  "compile_run goodEnv (handleReset compilingApp)
       (AwaitRead 0 fileB [] [''doc1.p1'', ''doc1.p2'', ''doc2.p1'', ''doc2.p2'', ''doc2.p3''])
     = (handleReset compilingApp)
         \<lparr>compiledPdfBlob := Some [''doc1.p1'', ''doc1.p2'', ''doc2.p1'', ''doc2.p2'',
                                   ''doc2.p3'', ''doc3.p1''],
          isPreviewOpen := True\<rparr>"
  "compile_run badEnv (handleReset compilingApp)
       (AwaitRead 0 fileC [fileB] [''doc1.p1'', ''doc1.p2''])
     = (handleReset compilingApp)
         \<lparr>uploadStatus := \<lparr>stype = Some error,
                            message = ''Failed to process files: No PDF header found''\<rparr>\<rparr>"
proof -
  have a: "aborted (handleReset compilingApp) 0"
    by (simp add: aborted_handleReset compilingApp_eq)
  have B: "filePages goodEnv fileB = Inr [''doc3.p1'']"
    and C: "filePages badEnv fileC = Inl (JsError ''No PDF header found'')"
    by (simp_all add: filePages_def readFileAsArrayBuffer_def PDFDocument_load_def
          goodEnv_def badEnv_def fileB_def fileC_def)
  show "compile_run goodEnv (handleReset compilingApp)
       (AwaitRead 0 fileB [] [''doc1.p1'', ''doc1.p2'', ''doc2.p1'', ''doc2.p2'', ''doc2.p3''])
     = (handleReset compilingApp)
         \<lparr>compiledPdfBlob := Some [''doc1.p1'', ''doc1.p2'', ''doc2.p1'', ''doc2.p2'',
                                   ''doc2.p3'', ''doc3.p1''],
          isPreviewOpen := True\<rparr>"
    using a by (simp add: compile_run_AwaitRead B run_loop_Nil finally_block_def save_def)
  show "compile_run badEnv (handleReset compilingApp)
       (AwaitRead 0 fileC [fileB] [''doc1.p1'', ''doc1.p2''])
     = (handleReset compilingApp)
         \<lparr>uploadStatus := \<lparr>stype = Some error,
                            message = ''Failed to process files: No PDF header found''\<rparr>\<rparr>"
    using a by (simp add: compile_run_AwaitRead C compile_catch_def finally_block_def)
qed


end
